theory Spec2Isabelle
  imports Main "HOL-Library.Word"
begin

section \<open>Values shared by the four entity kinds\<close>

text \<open>
  \<^verbatim>\<open>main.py\<close> keeps four module-level dictionaries keyed by \<^verbatim>\<open>UUID\<close> and serves
  create, get, list and patch on each. A \<^verbatim>\<open>UUID\<close> is a 128-bit value. A
  \<^verbatim>\<open>datetime\<close> is a naive UTC instant with microsecond resolution; it is modelled by
  the number of microseconds since the first representable instant. Only the order of
  instants is used below.
\<close>

type_synonym uuid = "128 word"
type_synonym datetime = nat

text \<open>
  The endpoints raise \<^verbatim>\<open>HTTPException(status_code, detail)\<close> themselves. Two more
  failures come from the model classes: the request layer rejects a body that does not
  decode into the declared payload class (status 422), and a \<^verbatim>\<open>...Read(**stored)\<close>
  constructor called inside an endpoint raises pydantic's \<^verbatim>\<open>ValidationError\<close> when a
  value does not fit the declared field type (an unhandled exception, status 500).
\<close>

datatype error =
    HTTPException nat string
  | RequestValidationError
  | ValidationError

fun status_code :: "error \<Rightarrow> nat" where
  "status_code (HTTPException c d) = c"
| "status_code RequestValidationError = 422"
| "status_code ValidationError = 500"

subsection \<open>Python dictionaries\<close>

text \<open>
  A \<^verbatim>\<open>Dict[UUID, ...]\<close> keeps its keys in insertion order, and \<^verbatim>\<open>d[k] = v\<close> on a key
  that is already present replaces the value in place. The stores are therefore
  association lists: \<open>dict_set\<close> is \<^verbatim>\<open>d[k] = v\<close>, \<open>dict_contains\<close> is \<^verbatim>\<open>k in d\<close>,
  \<open>map_of\<close> is \<^verbatim>\<open>d[k]\<close> and \<open>dict_values\<close> is \<^verbatim>\<open>list(d.values())\<close>.
\<close>

type_synonym ('k, 'v) dict = "('k \<times> 'v) list"

fun dict_set :: "'k \<Rightarrow> 'v \<Rightarrow> ('k, 'v) dict \<Rightarrow> ('k, 'v) dict" where
  "dict_set k v [] = [(k, v)]"
| "dict_set k v ((k', v') # d) =
     (if k' = k then (k, v) # d else (k', v') # dict_set k v d)"

definition dict_contains :: "'k \<Rightarrow> ('k, 'v) dict \<Rightarrow> bool" where
  "dict_contains k d = (k \<in> set (map fst d))"

definition dict_values :: "('k, 'v) dict \<Rightarrow> 'v list" where
  "dict_values d = map snd d"

subsection \<open>Partial payloads\<close>

text \<open>
  Every field of an \<^verbatim>\<open>...Update\<close> class is \<^verbatim>\<open>Optional[...]\<close> with default \<^verbatim>\<open>None\<close>.
  pydantic records which fields the request supplied, and
  \<^verbatim>\<open>model_dump(exclude_unset=True)\<close> keeps exactly those, an explicit \<^verbatim>\<open>null\<close> included.
  A field of an update payload is therefore either \<open>Unset\<close> or \<open>Supplied v\<close>, where
  \<open>v\<close> is an optional value and \<open>Supplied None\<close> is the explicit \<^verbatim>\<open>null\<close>.
  \<open>overlay\<close> is what \<^verbatim>\<open>stored.update(...)\<close> does to one key.
\<close>

datatype 'a field = Unset | Supplied 'a

fun overlay :: "'a field \<Rightarrow> 'a \<Rightarrow> 'a" where
  "overlay Unset old = old"
| "overlay (Supplied v) old = v"

text \<open>
  A query parameter of a list endpoint is \<^verbatim>\<open>None\<close> when the request omits it. Each
  \<^verbatim>\<open>if x is not None: results = [r for r in results if ...]\<close> of the list endpoints is
  one \<open>filter_by\<close>. The query parameters carry a prime below, their names being
  taken by the fields.
\<close>

fun filter_by :: "'q option \<Rightarrow> ('q \<Rightarrow> 'r \<Rightarrow> bool) \<Rightarrow> 'r list \<Rightarrow> 'r list" where
  "filter_by None keep results = results"
| "filter_by (Some q) keep results = filter (keep q) results"

section \<open>Address\<close>

text \<open>
  Modelled from the spec: \<^verbatim>\<open>models/address.py\<close> is not among the sources. The spec gives
  an Address an identifier and five free-text fields (street, city, state or region,
  postal code, country), all optional; \<^verbatim>\<open>AddressRead\<close> adds the two timestamps, as the
  other \<^verbatim>\<open>...Read\<close> classes do. The field names are those \<^verbatim>\<open>main.py\<close> reads and the
  examples of \<^verbatim>\<open>house.py\<close> show. An identifier that the request omits is drawn by
  \<^verbatim>\<open>uuid4\<close> while the payload object is built, so a typed payload always carries one.
\<close>

record AddressBase =
  id' :: uuid
  street :: "string option"
  city :: "string option"
  state :: "string option"
  postal_code :: "string option"
  country :: "string option"

type_synonym AddressCreate = AddressBase

record AddressRead = AddressBase +
  created_at :: datetime
  updated_at :: datetime

record AddressUpdate =
  street :: "string option field"
  city :: "string option field"
  state :: "string option field"
  postal_code :: "string option field"
  country :: "string option field"

text \<open>
  \<^verbatim>\<open>AddressRead(**address.model_dump())\<close>: the payload's fields, and the two timestamps
  from their \<^verbatim>\<open>default_factory=datetime.utcnow\<close>. Each factory is its own call of the
  clock, \<open>created_at\<close> first (the order of declaration), so the constructor takes two
  readings.
\<close>

definition AddressRead_of_create :: "datetime \<Rightarrow> datetime \<Rightarrow> AddressCreate \<Rightarrow> AddressRead" where
  "AddressRead_of_create t1 t2 address =
     AddressBase.extend address
       \<lparr>AddressRead.created_at = t1, AddressRead.updated_at = t2\<rparr>"

definition create_address ::
  "datetime \<Rightarrow> datetime \<Rightarrow> AddressCreate \<Rightarrow> (uuid, AddressRead) dict
     \<Rightarrow> (error + AddressRead) \<times> (uuid, AddressRead) dict" where
  "create_address t1 t2 address addresses =
     (if dict_contains (AddressBase.id' address) addresses
      then (Inl (HTTPException 400 ''Address with this ID already exists''), addresses)
      else let address_read = AddressRead_of_create t1 t2 address
           in (Inr address_read, dict_set (AddressBase.id' address) address_read addresses))"

definition list_addresses ::
  "string option \<Rightarrow> string option \<Rightarrow> string option \<Rightarrow> string option \<Rightarrow> string option
     \<Rightarrow> (uuid, AddressRead) dict \<Rightarrow> AddressRead list" where
  "list_addresses street' city' state' postal_code' country' addresses =
     filter_by country' (\<lambda>q a. AddressBase.country a = Some q)
       (filter_by postal_code' (\<lambda>q a. AddressBase.postal_code a = Some q)
         (filter_by state' (\<lambda>q a. AddressBase.state a = Some q)
           (filter_by city' (\<lambda>q a. AddressBase.city a = Some q)
             (filter_by street' (\<lambda>q a. AddressBase.street a = Some q)
               (dict_values addresses)))))"

definition get_address ::
  "uuid \<Rightarrow> (uuid, AddressRead) dict \<Rightarrow> (error + AddressRead) \<times> (uuid, AddressRead) dict" where
  "get_address address_id addresses =
     (case map_of addresses address_id of
        None \<Rightarrow> (Inl (HTTPException 404 ''Address not found''), addresses)
      | Some a \<Rightarrow> (Inr a, addresses))"

text \<open>
  \<^verbatim>\<open>stored = addresses[address_id].model_dump(); stored.update(update.model_dump(exclude_unset=True))\<close>.
  Every field of an Address may be null, so the merged dictionary is again an
  \<^verbatim>\<open>AddressRead\<close> and \<^verbatim>\<open>AddressRead(**stored)\<close> returns it as it is.
\<close>

definition AddressRead_merge :: "AddressRead \<Rightarrow> AddressUpdate \<Rightarrow> AddressRead" where
  "AddressRead_merge cur update =
     cur\<lparr>AddressBase.street := overlay (AddressUpdate.street update) (AddressBase.street cur),
         AddressBase.city := overlay (AddressUpdate.city update) (AddressBase.city cur),
         AddressBase.state := overlay (AddressUpdate.state update) (AddressBase.state cur),
         AddressBase.postal_code :=
           overlay (AddressUpdate.postal_code update) (AddressBase.postal_code cur),
         AddressBase.country := overlay (AddressUpdate.country update) (AddressBase.country cur)\<rparr>"

text \<open>
  The last assignment stores \<^verbatim>\<open>datetime.utcnow().isoformat()\<close>, the text of the instant
  read; the next \<^verbatim>\<open>AddressRead(**stored)\<close> parses it back to the same instant. \<open>now\<close> is
  that one reading of the clock.
\<close>

definition update_address ::
  "datetime \<Rightarrow> uuid \<Rightarrow> AddressUpdate \<Rightarrow> (uuid, AddressRead) dict
     \<Rightarrow> (error + AddressRead) \<times> (uuid, AddressRead) dict" where
  "update_address now address_id update addresses =
     (case map_of addresses address_id of
        None \<Rightarrow> (Inl (HTTPException 404 ''Address not found''), addresses)
      | Some cur \<Rightarrow>
          let stored = AddressRead_merge cur update;
              new = stored\<lparr>AddressRead.updated_at := now\<rparr>
          in (Inr new, dict_set address_id new addresses))"

subsection \<open>An address embedded in another record\<close>

text \<open>
  An update payload may carry an embedded \<^verbatim>\<open>AddressBase\<close>. pydantic remembers which of
  its fields the request supplied, and \<^verbatim>\<open>model_dump(exclude_unset=True)\<close> drops the
  others inside the embedded address too. The \<^verbatim>\<open>...Read(**stored)\<close> constructor then
  builds the address anew from the dictionary: a missing \<open>id\<close> is drawn by \<^verbatim>\<open>uuid4\<close>
  again, and a missing text field gets its default \<^verbatim>\<open>None\<close>, the value it had in the
  payload. The dictionary of an embedded address is therefore its values together with
  whether the key \<open>id\<close> is present. The dump of a stored record has every key.
  An embedded address of an update payload is represented by this dictionary.
  The values that \<^verbatim>\<open>uuid4\<close> returns inside one call of an endpoint are a parameter
  \<open>uuid4\<close> of it, \<open>uuid4 k\<close> being the value of draw number \<open>k\<close>.
\<close>

record address_dict =
  address_of :: AddressBase
  has_id :: bool

definition AddressBase_model_dump :: "AddressBase \<Rightarrow> address_dict" where
  "AddressBase_model_dump a = \<lparr>address_of = a, has_id = True\<rparr>"

definition AddressBase_validate :: "uuid \<Rightarrow> address_dict \<Rightarrow> AddressBase" where
  "AddressBase_validate drawn d =
     (if has_id d then address_of d else (address_of d)\<lparr>AddressBase.id' := drawn\<rparr>)"

text \<open>A list of embedded addresses, built in order; \<open>k\<close> counts the draws made so far.\<close>

fun AddressBase_validate_list :: "(nat \<Rightarrow> uuid) \<Rightarrow> nat \<Rightarrow> address_dict list \<Rightarrow> AddressBase list" where
  "AddressBase_validate_list uuid4 k [] = []"
| "AddressBase_validate_list uuid4 k (d # ds) =
     (if has_id d then address_of d # AddressBase_validate_list uuid4 k ds
      else (address_of d)\<lparr>AddressBase.id' := uuid4 k\<rparr>
             # AddressBase_validate_list uuid4 (Suc k) ds)"

section \<open>Organization\<close>

text \<open>
  \<^verbatim>\<open>models/organization.py\<close>: \<open>org_name\<close>, \<open>email\<close> and \<open>address\<close> are required and not
  nullable, \<open>phone\<close> is \<^verbatim>\<open>Optional[str]\<close>. An \<^verbatim>\<open>EmailStr\<close> is a string that the request
  layer has already checked.
\<close>

record OrganizationBase =
  id' :: uuid
  org_name :: string
  email :: string
  phone :: "string option"
  address :: AddressBase

type_synonym OrganizationCreate = OrganizationBase

record OrganizationRead = OrganizationBase +
  created_at :: datetime
  updated_at :: datetime

record OrganizationUpdate =
  org_name :: "string option field"
  email :: "string option field"
  phone :: "string option field"
  address :: "address_dict option field"

text \<open>
  The dictionary that \<^verbatim>\<open>model_dump()\<close> returns and \<^verbatim>\<open>stored.update(...)\<close> changes. A
  key that an update can set holds an optional value, since every field of
  \<^verbatim>\<open>OrganizationUpdate\<close> admits \<^verbatim>\<open>None\<close>.
\<close>

record organization_dict =
  id' :: uuid
  org_name :: "string option"
  email :: "string option"
  phone :: "string option"
  address :: "address_dict option"
  created_at :: datetime
  updated_at :: datetime

definition OrganizationRead_model_dump :: "OrganizationRead \<Rightarrow> organization_dict" where
  "OrganizationRead_model_dump r =
     \<lparr>organization_dict.id' = OrganizationBase.id' r,
      organization_dict.org_name = Some (OrganizationBase.org_name r),
      organization_dict.email = Some (OrganizationBase.email r),
      organization_dict.phone = OrganizationBase.phone r,
      organization_dict.address = Some (AddressBase_model_dump (OrganizationBase.address r)),
      organization_dict.created_at = OrganizationRead.created_at r,
      organization_dict.updated_at = OrganizationRead.updated_at r\<rparr>"

definition organization_dict_update ::
  "organization_dict \<Rightarrow> OrganizationUpdate \<Rightarrow> organization_dict" where
  "organization_dict_update stored update =
     stored\<lparr>organization_dict.org_name :=
              overlay (OrganizationUpdate.org_name update) (organization_dict.org_name stored),
            organization_dict.email :=
              overlay (OrganizationUpdate.email update) (organization_dict.email stored),
            organization_dict.phone :=
              overlay (OrganizationUpdate.phone update) (organization_dict.phone stored),
            organization_dict.address :=
              overlay (OrganizationUpdate.address update) (organization_dict.address stored)\<rparr>"

text \<open>
  \<^verbatim>\<open>OrganizationRead(**stored)\<close>: raises when a required field holds \<^verbatim>\<open>None\<close>. All keys
  of the record itself are present in \<open>stored\<close>, so among its default factories only the
  \<^verbatim>\<open>uuid4\<close> of the embedded address can run.
\<close>

definition OrganizationRead_validate ::
  "(nat \<Rightarrow> uuid) \<Rightarrow> organization_dict \<Rightarrow> OrganizationRead option" where
  "OrganizationRead_validate uuid4 stored =
     (case (organization_dict.org_name stored, organization_dict.email stored,
            organization_dict.address stored) of
        (Some n, Some e, Some a) \<Rightarrow>
          Some \<lparr>OrganizationBase.id' = organization_dict.id' stored,
                OrganizationBase.org_name = n,
                OrganizationBase.email = e,
                OrganizationBase.phone = organization_dict.phone stored,
                OrganizationBase.address = AddressBase_validate (uuid4 0) a,
                OrganizationRead.created_at = organization_dict.created_at stored,
                OrganizationRead.updated_at = organization_dict.updated_at stored\<rparr>
      | _ \<Rightarrow> None)"

definition OrganizationRead_of_create ::
  "datetime \<Rightarrow> datetime \<Rightarrow> OrganizationCreate \<Rightarrow> OrganizationRead" where
  "OrganizationRead_of_create t1 t2 organization =
     OrganizationBase.extend organization
       \<lparr>OrganizationRead.created_at = t1, OrganizationRead.updated_at = t2\<rparr>"

definition create_organization ::
  "datetime \<Rightarrow> datetime \<Rightarrow> OrganizationCreate \<Rightarrow> (uuid, OrganizationRead) dict
     \<Rightarrow> (error + OrganizationRead) \<times> (uuid, OrganizationRead) dict" where
  "create_organization t1 t2 organization organizations =
     (if dict_contains (OrganizationBase.id' organization) organizations
      then (Inl (HTTPException 400 ''Organization with this ID already exists''), organizations)
      else let organization_read = OrganizationRead_of_create t1 t2 organization
           in (Inr organization_read,
               dict_set (OrganizationBase.id' organization_read) organization_read organizations))"

definition list_organizations ::
  "string option \<Rightarrow> string option \<Rightarrow> string option \<Rightarrow> string option \<Rightarrow> string option
     \<Rightarrow> (uuid, OrganizationRead) dict \<Rightarrow> OrganizationRead list" where
  "list_organizations org_name' email' phone' city' country' organizations =
     filter_by country' (\<lambda>q p. AddressBase.country (OrganizationBase.address p) = Some q)
       (filter_by city' (\<lambda>q p. AddressBase.city (OrganizationBase.address p) = Some q)
         (filter_by phone' (\<lambda>q p. OrganizationBase.phone p = Some q)
           (filter_by email' (\<lambda>q p. OrganizationBase.email p = q)
             (filter_by org_name' (\<lambda>q p. OrganizationBase.org_name p = q)
               (dict_values organizations)))))"

definition get_organization ::
  "uuid \<Rightarrow> (uuid, OrganizationRead) dict
     \<Rightarrow> (error + OrganizationRead) \<times> (uuid, OrganizationRead) dict" where
  "get_organization organization_id organizations =
     (case map_of organizations organization_id of
        None \<Rightarrow> (Inl (HTTPException 404 ''Organization not found''), organizations)
      | Some r \<Rightarrow> (Inr r, organizations))"

text \<open>
  The constructor runs before the assignment to the store, so a \<^verbatim>\<open>ValidationError\<close>
  leaves the store as it was.
\<close>

definition update_organization ::
  "datetime \<Rightarrow> (nat \<Rightarrow> uuid) \<Rightarrow> uuid \<Rightarrow> OrganizationUpdate \<Rightarrow> (uuid, OrganizationRead) dict
     \<Rightarrow> (error + OrganizationRead) \<times> (uuid, OrganizationRead) dict" where
  "update_organization now uuid4 organization_id update organizations =
     (case map_of organizations organization_id of
        None \<Rightarrow> (Inl (HTTPException 404 ''Organization not found''), organizations)
      | Some cur \<Rightarrow>
          let stored = organization_dict_update (OrganizationRead_model_dump cur) update
          in (case OrganizationRead_validate uuid4 stored of
                None \<Rightarrow> (Inl ValidationError, organizations)
              | Some validated \<Rightarrow>
                  let new = validated\<lparr>OrganizationRead.updated_at := now\<rparr>
                  in (Inr new, dict_set organization_id new organizations)))"

section \<open>House\<close>

text \<open>
  Modelled from the spec: \<^verbatim>\<open>UNIType\<close> is declared in \<^verbatim>\<open>models/person.py\<close>, which is not
  among the sources. The spec calls a UNI a fixed-format token; the examples of
  \<^verbatim>\<open>house.py\<close> are \<^verbatim>\<open>"abc1234"\<close> and \<^verbatim>\<open>"zde3421"\<close>. A UNI is a string here, and a stored
  one has passed the format check of its declaration.
\<close>

type_synonym UNIType = string

text \<open>
  \<^verbatim>\<open>models/house.py\<close>. In \<^verbatim>\<open>HouseBase\<close> the declaration of \<open>address\<close> ends in a comma
  (\<^verbatim>\<open>address: AddressBase = Field(...),\<close>), so its class attribute is a one-element
  tuple and the field has that tuple as its default: a create payload may omit the
  address (\<open>None\<close> below), and the \<^verbatim>\<open>HouseRead\<close> constructor, which does check the value
  it is given, then raises. A stored house always has an address.
\<close>

record HouseBase =
  id' :: uuid
  phone :: "string option"
  address :: AddressBase
  people :: "UNIType list"

record HouseCreate =
  id' :: uuid
  phone :: "string option"
  address :: "AddressBase option"
  people :: "UNIType list"

record HouseRead = HouseBase +
  created_at :: datetime
  updated_at :: datetime

text \<open>
  \<^verbatim>\<open>HouseUpdate.people\<close> is declared \<^verbatim>\<open>Optional[List[UUID]]\<close>, whereas
  \<^verbatim>\<open>HouseBase.people\<close> is \<^verbatim>\<open>List[UNIType]\<close>.
\<close>

record HouseUpdate =
  phone :: "string option field"
  address :: "address_dict option field"
  people :: "uuid list option field"

text \<open>
  An element of the \<open>people\<close> list of the dumped dictionary is a string when it comes
  from the stored house and a \<^verbatim>\<open>UUID\<close> object when it comes from the update.
\<close>

datatype person_ref = Str UNIType | UUID uuid

record house_dict =
  id' :: uuid
  phone :: "string option"
  address :: "address_dict option"
  people :: "person_ref list option"
  created_at :: datetime
  updated_at :: datetime

definition HouseRead_model_dump :: "HouseRead \<Rightarrow> house_dict" where
  "HouseRead_model_dump r =
     \<lparr>house_dict.id' = HouseBase.id' r,
      house_dict.phone = HouseBase.phone r,
      house_dict.address = Some (AddressBase_model_dump (HouseBase.address r)),
      house_dict.people = Some (map Str (HouseBase.people r)),
      house_dict.created_at = HouseRead.created_at r,
      house_dict.updated_at = HouseRead.updated_at r\<rparr>"

definition HouseUpdate_model_dump_people :: "HouseUpdate \<Rightarrow> person_ref list option field" where
  "HouseUpdate_model_dump_people update =
     (case HouseUpdate.people update of
        Unset \<Rightarrow> Unset
      | Supplied v \<Rightarrow> Supplied (map_option (map UUID) v))"

definition house_dict_update :: "house_dict \<Rightarrow> HouseUpdate \<Rightarrow> house_dict" where
  "house_dict_update stored update =
     stored\<lparr>house_dict.phone :=
              overlay (HouseUpdate.phone update) (house_dict.phone stored),
            house_dict.address :=
              overlay (HouseUpdate.address update) (house_dict.address stored),
            house_dict.people :=
              overlay (HouseUpdate_model_dump_people update) (house_dict.people stored)\<rparr>"

text \<open>
  A \<^verbatim>\<open>UNIType\<close> field takes a string; a \<^verbatim>\<open>UUID\<close> object is not one, and pydantic does not
  convert it.
\<close>

fun UNIType_validate :: "person_ref \<Rightarrow> UNIType option" where
  "UNIType_validate (Str s) = Some s"
| "UNIType_validate (UUID u) = None"

definition HouseRead_validate :: "(nat \<Rightarrow> uuid) \<Rightarrow> house_dict \<Rightarrow> HouseRead option" where
  "HouseRead_validate uuid4 stored =
     (case (house_dict.address stored, house_dict.people stored) of
        (Some a, Some refs) \<Rightarrow>
          (case those (map UNIType_validate refs) of
             Some unis \<Rightarrow>
               Some \<lparr>HouseBase.id' = house_dict.id' stored,
                     HouseBase.phone = house_dict.phone stored,
                     HouseBase.address = AddressBase_validate (uuid4 0) a,
                     HouseBase.people = unis,
                     HouseRead.created_at = house_dict.created_at stored,
                     HouseRead.updated_at = house_dict.updated_at stored\<rparr>
           | None \<Rightarrow> None)
      | _ \<Rightarrow> None)"

definition HouseRead_of_create :: "datetime \<Rightarrow> datetime \<Rightarrow> HouseCreate \<Rightarrow> HouseRead option" where
  "HouseRead_of_create t1 t2 house =
     (case HouseCreate.address house of
        None \<Rightarrow> None
      | Some a \<Rightarrow>
          Some \<lparr>HouseBase.id' = HouseCreate.id' house,
                HouseBase.phone = HouseCreate.phone house,
                HouseBase.address = a,
                HouseBase.people = HouseCreate.people house,
                HouseRead.created_at = t1,
                HouseRead.updated_at = t2\<rparr>)"

definition create_house ::
  "datetime \<Rightarrow> datetime \<Rightarrow> HouseCreate \<Rightarrow> (uuid, HouseRead) dict
     \<Rightarrow> (error + HouseRead) \<times> (uuid, HouseRead) dict" where
  "create_house t1 t2 house houses =
     (if dict_contains (HouseCreate.id' house) houses
      then (Inl (HTTPException 400 ''House with this ID already exists''), houses)
      else (case HouseRead_of_create t1 t2 house of
              None \<Rightarrow> (Inl ValidationError, houses)
            | Some house_read \<Rightarrow>
                (Inr house_read, dict_set (HouseBase.id' house_read) house_read houses)))"

definition list_houses ::
  "string option \<Rightarrow> UNIType option \<Rightarrow> string option \<Rightarrow> string option
     \<Rightarrow> (uuid, HouseRead) dict \<Rightarrow> HouseRead list" where
  "list_houses phone' person_uni city' country' houses =
     filter_by person_uni (\<lambda>q p. list_ex (\<lambda>uni. uni = q) (HouseBase.people p))
       (filter_by country' (\<lambda>q p. AddressBase.country (HouseBase.address p) = Some q)
         (filter_by city' (\<lambda>q p. AddressBase.city (HouseBase.address p) = Some q)
           (filter_by phone' (\<lambda>q p. HouseBase.phone p = Some q)
             (dict_values houses))))"

definition get_house ::
  "uuid \<Rightarrow> (uuid, HouseRead) dict \<Rightarrow> (error + HouseRead) \<times> (uuid, HouseRead) dict" where
  "get_house house_id houses =
     (case map_of houses house_id of
        None \<Rightarrow> (Inl (HTTPException 404 ''House not found''), houses)
      | Some r \<Rightarrow> (Inr r, houses))"

definition update_house ::
  "datetime \<Rightarrow> (nat \<Rightarrow> uuid) \<Rightarrow> uuid \<Rightarrow> HouseUpdate \<Rightarrow> (uuid, HouseRead) dict
     \<Rightarrow> (error + HouseRead) \<times> (uuid, HouseRead) dict" where
  "update_house now uuid4 house_id update houses =
     (case map_of houses house_id of
        None \<Rightarrow> (Inl (HTTPException 404 ''House not found''), houses)
      | Some cur \<Rightarrow>
          let stored = house_dict_update (HouseRead_model_dump cur) update
          in (case HouseRead_validate uuid4 stored of
                None \<Rightarrow> (Inl ValidationError, houses)
              | Some validated \<Rightarrow>
                  let new = validated\<lparr>HouseRead.updated_at := now\<rparr>
                  in (Inr new, dict_set house_id new houses)))"

subsection \<open>The body of a house patch request\<close>

text \<open>
  The JSON body of \<^verbatim>\<open>PATCH /houses/{house_id}\<close> carries the residents as strings. The
  request layer builds the \<^verbatim>\<open>HouseUpdate\<close> from it before \<^verbatim>\<open>update_house\<close> runs, and
  answers 422 when an element is not the text of a UUID. The accepted texts are 32
  hexadecimal digits, the same in groups of 8-4-4-4-12 separated by hyphens, and the
  hyphenated form in braces or after \<^verbatim>\<open>urn:uuid:\<close>.
\<close>

definition hex_digit :: "char \<Rightarrow> nat option" where
  "hex_digit c =
     (let n = (of_char c :: nat)
      in if 48 \<le> n \<and> n \<le> 57 then Some (n - 48)
         else if 97 \<le> n \<and> n \<le> 102 then Some (n - 87)
         else if 65 \<le> n \<and> n \<le> 70 then Some (n - 55)
         else None)"

fun parse_hex :: "string \<Rightarrow> nat \<Rightarrow> nat option" where
  "parse_hex [] acc = Some acc"
| "parse_hex (c # cs) acc =
     (case hex_digit c of None \<Rightarrow> None | Some d \<Rightarrow> parse_hex cs (16 * acc + d))"

definition parse_simple :: "string \<Rightarrow> uuid option" where
  "parse_simple s =
     (if length s = 32 then map_option word_of_nat (parse_hex s 0) else None)"

definition parse_hyphenated :: "string \<Rightarrow> uuid option" where
  "parse_hyphenated s =
     (if length s = 36 \<and> s ! 8 = CHR ''-'' \<and> s ! 13 = CHR ''-''
           \<and> s ! 18 = CHR ''-'' \<and> s ! 23 = CHR ''-''
      then parse_simple
             (take 8 s @ take 4 (drop 9 s) @ take 4 (drop 14 s) @ take 4 (drop 19 s) @ drop 24 s)
      else None)"

definition UUID_of_string :: "string \<Rightarrow> uuid option" where
  "UUID_of_string s =
     (if length s = 32 then parse_simple s
      else if length s = 36 then parse_hyphenated s
      else if length s = 38 \<and> hd s = CHR ''{'' \<and> last s = CHR ''}''
        then parse_hyphenated (butlast (tl s))
      else if length s = 45 \<and> take 9 s = ''urn:uuid:'' then parse_hyphenated (drop 9 s)
      else None)"

record HouseUpdate_body =
  phone :: "string option field"
  address :: "address_dict option field"
  people :: "string list option field"

definition HouseUpdate_of_body :: "HouseUpdate_body \<Rightarrow> HouseUpdate option" where
  "HouseUpdate_of_body body =
     (case HouseUpdate_body.people body of
        Unset \<Rightarrow>
          Some \<lparr>HouseUpdate.phone = HouseUpdate_body.phone body,
                HouseUpdate.address = HouseUpdate_body.address body,
                HouseUpdate.people = Unset\<rparr>
      | Supplied None \<Rightarrow>
          Some \<lparr>HouseUpdate.phone = HouseUpdate_body.phone body,
                HouseUpdate.address = HouseUpdate_body.address body,
                HouseUpdate.people = Supplied None\<rparr>
      | Supplied (Some texts) \<Rightarrow>
          (case those (map UUID_of_string texts) of
             None \<Rightarrow> None
           | Some ids \<Rightarrow>
               Some \<lparr>HouseUpdate.phone = HouseUpdate_body.phone body,
                     HouseUpdate.address = HouseUpdate_body.address body,
                     HouseUpdate.people = Supplied (Some ids)\<rparr>))"

definition patch_house ::
  "datetime \<Rightarrow> (nat \<Rightarrow> uuid) \<Rightarrow> uuid \<Rightarrow> HouseUpdate_body \<Rightarrow> (uuid, HouseRead) dict
     \<Rightarrow> (error + HouseRead) \<times> (uuid, HouseRead) dict" where
  "patch_house now uuid4 house_id body houses =
     (case HouseUpdate_of_body body of
        None \<Rightarrow> (Inl RequestValidationError, houses)
      | Some update \<Rightarrow> update_house now uuid4 house_id update houses)"

section \<open>Person\<close>

text \<open>
  Modelled from the spec: \<^verbatim>\<open>models/person.py\<close> is not among the sources. The spec gives a
  Person an identifier, a UNI, first and last name, email, phone, birth date and a
  collection of embedded addresses; \<^verbatim>\<open>main.py\<close> reads the fields under the names used
  here. The spec does not say which scalar fields may be null, so each of them admits
  \<open>None\<close>, which covers whatever the missing declarations allow. The addresses are a list
  (\<^verbatim>\<open>list_persons\<close> iterates over it). A date is represented by the text that \<^verbatim>\<open>str\<close>
  returns for it.
\<close>

type_synonym date = string

record PersonBase =
  id' :: uuid
  uni :: "UNIType option"
  first_name :: "string option"
  last_name :: "string option"
  email :: "string option"
  phone :: "string option"
  birth_date :: "date option"
  addresses :: "AddressBase list"

type_synonym PersonCreate = PersonBase

record PersonRead = PersonBase +
  created_at :: datetime
  updated_at :: datetime

record PersonUpdate =
  uni :: "UNIType option field"
  first_name :: "string option field"
  last_name :: "string option field"
  email :: "string option field"
  phone :: "string option field"
  birth_date :: "date option field"
  addresses :: "address_dict list option field"

definition PersonRead_of_create :: "datetime \<Rightarrow> datetime \<Rightarrow> PersonCreate \<Rightarrow> PersonRead" where
  "PersonRead_of_create t1 t2 person =
     PersonBase.extend person
       \<lparr>PersonRead.created_at = t1, PersonRead.updated_at = t2\<rparr>"

text \<open>\<^verbatim>\<open>create_person\<close> has no membership test: the assignment replaces an entry.\<close>

definition create_person ::
  "datetime \<Rightarrow> datetime \<Rightarrow> PersonCreate \<Rightarrow> (uuid, PersonRead) dict
     \<Rightarrow> (error + PersonRead) \<times> (uuid, PersonRead) dict" where
  "create_person t1 t2 person persons =
     (let person_read = PersonRead_of_create t1 t2 person
      in (Inr person_read, dict_set (PersonBase.id' person_read) person_read persons))"

text \<open>\<^verbatim>\<open>str(p.birth_date)\<close>; the text of \<^verbatim>\<open>None\<close> is \<^verbatim>\<open>"None"\<close>.\<close>

fun str_birth_date :: "date option \<Rightarrow> string" where
  "str_birth_date None = ''None''"
| "str_birth_date (Some d) = d"

definition list_persons ::
  "string option \<Rightarrow> string option \<Rightarrow> string option \<Rightarrow> string option \<Rightarrow> string option
     \<Rightarrow> string option \<Rightarrow> string option \<Rightarrow> string option
     \<Rightarrow> (uuid, PersonRead) dict \<Rightarrow> PersonRead list" where
  "list_persons uni' first_name' last_name' email' phone' birth_date' city' country' persons =
     filter_by country'
         (\<lambda>q p. list_ex (\<lambda>addr. AddressBase.country addr = Some q) (PersonBase.addresses p))
       (filter_by city'
           (\<lambda>q p. list_ex (\<lambda>addr. AddressBase.city addr = Some q) (PersonBase.addresses p))
         (filter_by birth_date' (\<lambda>q p. str_birth_date (PersonBase.birth_date p) = q)
           (filter_by phone' (\<lambda>q p. PersonBase.phone p = Some q)
             (filter_by email' (\<lambda>q p. PersonBase.email p = Some q)
               (filter_by last_name' (\<lambda>q p. PersonBase.last_name p = Some q)
                 (filter_by first_name' (\<lambda>q p. PersonBase.first_name p = Some q)
                   (filter_by uni' (\<lambda>q p. PersonBase.uni p = Some q)
                     (dict_values persons))))))))"

definition get_person ::
  "uuid \<Rightarrow> (uuid, PersonRead) dict \<Rightarrow> (error + PersonRead) \<times> (uuid, PersonRead) dict" where
  "get_person person_id persons =
     (case map_of persons person_id of
        None \<Rightarrow> (Inl (HTTPException 404 ''Person not found''), persons)
      | Some r \<Rightarrow> (Inr r, persons))"

text \<open>
  The merged dictionary and \<^verbatim>\<open>PersonRead(**stored)\<close> in one step: the scalars may be
  null, the list of addresses may not, and each embedded address is built anew.
\<close>

definition PersonRead_merge ::
  "(nat \<Rightarrow> uuid) \<Rightarrow> PersonRead \<Rightarrow> PersonUpdate \<Rightarrow> PersonRead option" where
  "PersonRead_merge uuid4 cur update =
     (case overlay (PersonUpdate.addresses update)
             (Some (map AddressBase_model_dump (PersonBase.addresses cur))) of
        None \<Rightarrow> None
      | Some dicts \<Rightarrow>
          Some (cur\<lparr>PersonBase.uni := overlay (PersonUpdate.uni update) (PersonBase.uni cur),
                    PersonBase.first_name :=
                      overlay (PersonUpdate.first_name update) (PersonBase.first_name cur),
                    PersonBase.last_name :=
                      overlay (PersonUpdate.last_name update) (PersonBase.last_name cur),
                    PersonBase.email := overlay (PersonUpdate.email update) (PersonBase.email cur),
                    PersonBase.phone := overlay (PersonUpdate.phone update) (PersonBase.phone cur),
                    PersonBase.birth_date :=
                      overlay (PersonUpdate.birth_date update) (PersonBase.birth_date cur),
                    PersonBase.addresses := AddressBase_validate_list uuid4 0 dicts\<rparr>))"

definition update_person ::
  "datetime \<Rightarrow> (nat \<Rightarrow> uuid) \<Rightarrow> uuid \<Rightarrow> PersonUpdate \<Rightarrow> (uuid, PersonRead) dict
     \<Rightarrow> (error + PersonRead) \<times> (uuid, PersonRead) dict" where
  "update_person now uuid4 person_id update persons =
     (case map_of persons person_id of
        None \<Rightarrow> (Inl (HTTPException 404 ''Person not found''), persons)
      | Some cur \<Rightarrow>
          (case PersonRead_merge uuid4 cur update of
             None \<Rightarrow> (Inl ValidationError, persons)
           | Some validated \<Rightarrow>
               let new = validated\<lparr>PersonRead.updated_at := now\<rparr>
               in (Inr new, dict_set person_id new persons)))"

section \<open>The process: four stores and a clock\<close>

text \<open>
  The four module-level dictionaries, all empty when the process starts. A request that
  can write carries the readings that \<^verbatim>\<open>datetime.utcnow()\<close> returns to it, in the order
  of the calls: two for a create (\<open>created_at\<close>, then \<open>updated_at\<close>), one for an
  update. A request that fails before it reads the clock leaves its readings unused.
  An update that can rebuild an embedded address carries the values of \<^verbatim>\<open>uuid4\<close> as well.
  The get and list endpoints write nothing.
\<close>

record system =
  persons :: "(uuid, PersonRead) dict"
  addresses :: "(uuid, AddressRead) dict"
  organizations :: "(uuid, OrganizationRead) dict"
  houses :: "(uuid, HouseRead) dict"

definition initial :: system where
  "initial = \<lparr>persons = [], addresses = [], organizations = [], houses = []\<rparr>"

datatype request =
    CreateAddress datetime datetime AddressCreate
  | UpdateAddress datetime uuid AddressUpdate
  | CreatePerson datetime datetime PersonCreate
  | UpdatePerson datetime "nat \<Rightarrow> uuid" uuid PersonUpdate
  | CreateOrganization datetime datetime OrganizationCreate
  | UpdateOrganization datetime "nat \<Rightarrow> uuid" uuid OrganizationUpdate
  | CreateHouse datetime datetime HouseCreate
  | UpdateHouse datetime "nat \<Rightarrow> uuid" uuid HouseUpdate

fun readings :: "request \<Rightarrow> datetime list" where
  "readings (CreateAddress t1 t2 a) = [t1, t2]"
| "readings (UpdateAddress now i u) = [now]"
| "readings (CreatePerson t1 t2 p) = [t1, t2]"
| "readings (UpdatePerson now uuid4 i u) = [now]"
| "readings (CreateOrganization t1 t2 p) = [t1, t2]"
| "readings (UpdateOrganization now uuid4 i u) = [now]"
| "readings (CreateHouse t1 t2 h) = [t1, t2]"
| "readings (UpdateHouse now uuid4 i u) = [now]"

fun handle :: "request \<Rightarrow> system \<Rightarrow> system" where
  "handle (CreateAddress t1 t2 a) s =
     s\<lparr>addresses := snd (create_address t1 t2 a (addresses s))\<rparr>"
| "handle (UpdateAddress now i u) s =
     s\<lparr>addresses := snd (update_address now i u (addresses s))\<rparr>"
| "handle (CreatePerson t1 t2 p) s =
     s\<lparr>persons := snd (create_person t1 t2 p (persons s))\<rparr>"
| "handle (UpdatePerson now uuid4 i u) s =
     s\<lparr>persons := snd (update_person now uuid4 i u (persons s))\<rparr>"
| "handle (CreateOrganization t1 t2 p) s =
     s\<lparr>organizations := snd (create_organization t1 t2 p (organizations s))\<rparr>"
| "handle (UpdateOrganization now uuid4 i u) s =
     s\<lparr>organizations := snd (update_organization now uuid4 i u (organizations s))\<rparr>"
| "handle (CreateHouse t1 t2 h) s =
     s\<lparr>houses := snd (create_house t1 t2 h (houses s))\<rparr>"
| "handle (UpdateHouse now uuid4 i u) s =
     s\<lparr>houses := snd (update_house now uuid4 i u (houses s))\<rparr>"

fun run :: "request list \<Rightarrow> system \<Rightarrow> system" where
  "run [] s = s"
| "run (r # rs) s = run rs (handle r s)"

text \<open>The timestamps of every stored record, as pairs \<open>(created_at, updated_at)\<close>.\<close>

definition person_stamp :: "PersonRead \<Rightarrow> datetime \<times> datetime" where
  "person_stamp r = (PersonRead.created_at r, PersonRead.updated_at r)"

definition address_stamp :: "AddressRead \<Rightarrow> datetime \<times> datetime" where
  "address_stamp r = (AddressRead.created_at r, AddressRead.updated_at r)"

definition organization_stamp :: "OrganizationRead \<Rightarrow> datetime \<times> datetime" where
  "organization_stamp r = (OrganizationRead.created_at r, OrganizationRead.updated_at r)"

definition house_stamp :: "HouseRead \<Rightarrow> datetime \<times> datetime" where
  "house_stamp r = (HouseRead.created_at r, HouseRead.updated_at r)"

definition stamps :: "system \<Rightarrow> (datetime \<times> datetime) list" where
  "stamps s =
     map person_stamp (dict_values (persons s))
     @ map address_stamp (dict_values (addresses s))
     @ map organization_stamp (dict_values (organizations s))
     @ map house_stamp (dict_values (houses s))"

section \<open>The filters of the person listing, as the specification words them\<close>

text \<open>
  The specification describes a listing as the records that match all supplied filters,
  an omitted filter imposing no constraint, and the two address filters of a person as
  existential over the embedded addresses. \<open>person_matches\<close> is that description for
  the eight filters of \<^verbatim>\<open>GET /persons\<close>; it is compared with \<open>list_persons\<close> below.
\<close>

definition person_matches ::
  "string option \<Rightarrow> string option \<Rightarrow> string option \<Rightarrow> string option \<Rightarrow> string option
     \<Rightarrow> string option \<Rightarrow> string option \<Rightarrow> string option \<Rightarrow> PersonRead \<Rightarrow> bool" where
  "person_matches uni' first_name' last_name' email' phone' birth_date' city' country' p =
     ((case uni' of None \<Rightarrow> True | Some q \<Rightarrow> PersonBase.uni p = Some q)
      \<and> (case first_name' of None \<Rightarrow> True | Some q \<Rightarrow> PersonBase.first_name p = Some q)
      \<and> (case last_name' of None \<Rightarrow> True | Some q \<Rightarrow> PersonBase.last_name p = Some q)
      \<and> (case email' of None \<Rightarrow> True | Some q \<Rightarrow> PersonBase.email p = Some q)
      \<and> (case phone' of None \<Rightarrow> True | Some q \<Rightarrow> PersonBase.phone p = Some q)
      \<and> (case birth_date' of None \<Rightarrow> True
          | Some q \<Rightarrow> str_birth_date (PersonBase.birth_date p) = q)
      \<and> (case city' of None \<Rightarrow> True
          | Some q \<Rightarrow> \<exists>addr \<in> set (PersonBase.addresses p). AddressBase.city addr = Some q)
      \<and> (case country' of None \<Rightarrow> True
          | Some q \<Rightarrow> \<exists>addr \<in> set (PersonBase.addresses p). AddressBase.country addr = Some q))"

text \<open>
  The specification describes an update field by field: a field present in the partial
  payload overwrites the stored one, a field absent from it is left unchanged.
  \<open>merged supplied prior new\<close> says that \<open>new\<close> is related in this way to the payload's
  field and the prior value; it is compared with the records of the update endpoints below.
\<close>

definition merged :: "'a field \<Rightarrow> 'a \<Rightarrow> 'a \<Rightarrow> bool" where
  "merged supplied prior new =
     (case supplied of Unset \<Rightarrow> new = prior | Supplied v \<Rightarrow> new = v)"

section \<open>Example records\<close>

text \<open>
  Concrete payloads and stored records, taken from the examples of the model classes
  and of the specification. The theorems below are evaluated on them.
\<close>

definition uuid4_example :: "nat \<Rightarrow> uuid" where
  "uuid4_example k = 77 + of_nat k"

definition address_london :: AddressBase where
  "address_london =
     \<lparr>AddressBase.id' = 7, street = Some ''123 Main St'', city = Some ''London'',
      state = None, postal_code = Some ''SW1A 1AA'', country = Some ''UK''\<rparr>"

definition address_new_york :: AddressBase where
  "address_new_york =
     \<lparr>AddressBase.id' = 8, street = Some ''123 Main St'', city = Some ''New York'',
      state = Some ''NY'', postal_code = Some ''10025'', country = Some ''US''\<rparr>"

definition address_downing :: AddressBase where
  "address_downing =
     \<lparr>AddressBase.id' = 0xbbbbbbbbbbbb4bbb8bbbbbbbbbbbbbbb, street = Some ''10 Downing St'',
      city = Some ''London'', state = None, postal_code = Some ''SW1A 2AA'',
      country = Some ''UK''\<rparr>"

definition address_main_st :: AddressCreate where
  "address_main_st =
     \<lparr>AddressBase.id' = 1, street = Some ''1 Main St'', city = Some ''NYC'',
      state = None, postal_code = None, country = None\<rparr>"


definition address_boston_stale_read :: AddressRead where
  "address_boston_stale_read =
     \<lparr>AddressBase.id' = 1, street = Some ''1 Main St'', city = Some ''Boston'',
      state = None, postal_code = None, country = None,
      AddressRead.created_at = 10, updated_at = 5\<rparr>"

definition city_boston :: AddressUpdate where
  "city_boston =
     \<lparr>AddressUpdate.street = Unset, city = Supplied (Some ''Boston''), state = Unset,
      postal_code = Unset, country = Unset\<rparr>"

definition person_ada :: PersonCreate where
  "person_ada =
     \<lparr>PersonBase.id' = 3, uni = Some ''abc1234'', first_name = Some ''Ada'',
      last_name = Some ''Lovelace'', email = Some ''ada@example.com'', phone = None,
      birth_date = Some ''1815-12-10'', addresses = [address_london, address_new_york]\<rparr>"

definition person_ada_renamed :: PersonCreate where
  "person_ada_renamed =
     \<lparr>PersonBase.id' = 3, uni = Some ''abc1234'', first_name = Some ''Augusta'',
      last_name = Some ''King'', email = None, phone = None,
      birth_date = None, addresses = []\<rparr>"

definition person_ada_read :: "string option \<Rightarrow> datetime \<Rightarrow> datetime \<Rightarrow> PersonRead" where
  "person_ada_read ph t1 t2 =
     \<lparr>PersonBase.id' = 3, uni = Some ''abc1234'', first_name = Some ''Ada'',
      last_name = Some ''Lovelace'', email = Some ''ada@example.com'', phone = ph,
      birth_date = Some ''1815-12-10'', addresses = [address_london, address_new_york],
      PersonRead.created_at = t1, updated_at = t2\<rparr>"

definition person_bob_read :: PersonRead where
  "person_bob_read =
     \<lparr>PersonBase.id' = 4, uni = Some ''zde3421'', first_name = Some ''Bob'',
      last_name = None, email = None, phone = None,
      birth_date = None, addresses = [address_london],
      PersonRead.created_at = 12, updated_at = 12\<rparr>"

definition person_phone :: PersonUpdate where
  "person_phone =
     \<lparr>PersonUpdate.uni = Unset, first_name = Unset, last_name = Unset, email = Unset,
      phone = Supplied (Some ''+1-212-555-0199''), birth_date = Unset, addresses = Unset\<rparr>"


definition organization_cs :: OrganizationCreate where
  "organization_cs =
     \<lparr>OrganizationBase.id' = 2, org_name = ''Computer Science'',
      email = ''columbia_cs@columbia.edu'', phone = Some ''+1-212-555-0199'',
      address = address_london\<rparr>"

definition organization_cs_read :: "string option \<Rightarrow> datetime \<Rightarrow> datetime \<Rightarrow> OrganizationRead" where
  "organization_cs_read ph t1 t2 =
     \<lparr>OrganizationBase.id' = 2, org_name = ''Computer Science'',
      email = ''columbia_cs@columbia.edu'', phone = ph,
      address = address_london, OrganizationRead.created_at = t1, updated_at = t2\<rparr>"

definition organization_moved_read :: OrganizationRead where
  "organization_moved_read =
     \<lparr>OrganizationBase.id' = 2, org_name = ''Computer Science'',
      email = ''columbia_cs@columbia.edu'', phone = Some ''+1-212-555-0199'',
      address = address_downing, OrganizationRead.created_at = 10, updated_at = 20\<rparr>"


definition phone_only :: OrganizationUpdate where
  "phone_only =
     \<lparr>OrganizationUpdate.org_name = Unset, email = Unset,
      phone = Supplied (Some ''+1-415-555-0199''), address = Unset\<rparr>"


definition house_abc :: HouseCreate where
  "house_abc =
     \<lparr>HouseCreate.id' = 1, phone = None, address = Some address_london,
      people = [''abc1234'']\<rparr>"

definition house_abc_read :: "datetime \<Rightarrow> datetime \<Rightarrow> HouseRead" where
  "house_abc_read t1 t2 =
     \<lparr>HouseBase.id' = 1, phone = None, address = address_london, people = [''abc1234''],
      HouseRead.created_at = t1, updated_at = t2\<rparr>"

definition house_abc_phone_read :: HouseRead where
  "house_abc_phone_read =
     \<lparr>HouseBase.id' = 1, phone = Some ''+1-415-555-0199'', address = address_london,
      people = [''abc1234''], HouseRead.created_at = 10, updated_at = 20\<rparr>"

definition house_moved_read :: HouseRead where
  "house_moved_read =
     \<lparr>HouseBase.id' = 1, phone = None,
      address = address_downing\<lparr>AddressBase.id' := uuid4_example 0\<rparr>,
      people = [''abc1234''], HouseRead.created_at = 10, updated_at = 20\<rparr>"

definition house_phone :: HouseUpdate where
  "house_phone =
     \<lparr>HouseUpdate.phone = Supplied (Some ''+1-415-555-0199''), address = Unset,
      people = Unset\<rparr>"



definition people_xyz :: HouseUpdate_body where
  "people_xyz =
     \<lparr>HouseUpdate_body.phone = Unset, address = Unset,
      people = Supplied (Some [''xyz9999''])\<rparr>"

definition house_abc_requests :: "request list" where
  "house_abc_requests =
     [CreateHouse 10 11 house_abc, UpdateHouse 20 uuid4_example 1 house_phone,
      CreatePerson 20 20 person_ada]"

section \<open>Dictionaries\<close>

lemma dict_contains_map_of: "dict_contains k d \<longleftrightarrow> map_of d k \<noteq> None"
  by (simp add: dict_contains_def map_of_eq_None_iff)

lemma map_of_dict_set: "map_of (dict_set k v d) k' = (if k' = k then Some v else map_of d k')"
  by (induction d) auto

lemma key_in_keys: "(k, x) \<in> set d \<Longrightarrow> k \<in> fst ` set d"
  by force

lemma keys_dict_set:
  "map fst (dict_set k v d) = (if map_of d k = None then map fst d @ [k] else map fst d)"
  by (induction d) auto

lemma length_dict_set:
  "length (dict_set k v d) = (if map_of d k = None then Suc (length d) else length d)"
  by (induction d) auto

lemma dict_set_absent: "map_of d k = None \<Longrightarrow> dict_set k v d = d @ [(k, v)]"
  by (induction d) (auto split: if_splits)

lemma dict_set_present:
  "map_of d k = Some old \<Longrightarrow> \<exists>i < length d. d ! i = (k, old) \<and> dict_set k v d = d[i := (k, v)]"
proof (induction d)
  case Nil
  then show ?case by simp
next
  case (Cons a d)
  obtain k' v' where a: "a = (k', v')" by (cases a)
  show ?case
  proof (cases "k' = k")
    case True
    with Cons.prems a have "(a # d) ! 0 = (k, old) \<and> dict_set k v (a # d) = (a # d)[0 := (k, v)]"
      by simp
    then show ?thesis by blast
  next
    case False
    with Cons.prems a have "map_of d k = Some old" by simp
    from Cons.IH[OF this] obtain i where i: "i < length d" "d ! i = (k, old)" "dict_set k v d = d[i := (k, v)]"
      by blast
    with False a have "Suc i < length (a # d) \<and> (a # d) ! Suc i = (k, old) \<and> dict_set k v (a # d) = (a # d)[Suc i := (k, v)]"
      by simp
    then show ?thesis by blast
  qed
qed

lemma set_dict_set: "set (dict_set k v d) \<subseteq> insert (k, v) (set d)"
  by (induction d) (auto split: if_splits)

lemma dict_values_dict_set: "set (dict_values (dict_set k v d)) \<subseteq> insert v (set (dict_values d))"
  using set_dict_set[of k v d] by (auto simp: dict_values_def)

lemma distinct_dict_set: "distinct (map fst d) \<Longrightarrow> distinct (map fst (dict_set k v d))"
  by (simp add: keys_dict_set map_of_eq_None_iff)

lemma dict_set_old_gone:
  "distinct (map fst d) \<Longrightarrow> old \<noteq> v \<Longrightarrow> (k, old) \<notin> set (dict_set k v d)"
  by (induction d) (auto split: if_splits dest: key_in_keys)

lemma value_of_map_of: "map_of d k = Some v \<Longrightarrow> v \<in> set (dict_values d)"
  by (auto simp: dict_values_def dest!: map_of_SomeD intro: rev_image_eqI)

lemma filter_by_filter:
  "filter_by f keep xs = filter (\<lambda>r. case f of None \<Rightarrow> True | Some q \<Rightarrow> keep q r) xs"
  by (cases f) simp_all

section \<open>What a successful update changes\<close>

text \<open>
  For each entity kind: when the update returns a record, every field of it is merged
  from the payload's field and the stored value, the identifier and \<open>created_at\<close> are
  those of the stored record, \<open>updated_at\<close> is the reading of the clock, and the store
  differs from the old one in that entry only; which payloads the update accepts; and
  that it answers the others with a validation error and the store as it was.
\<close>

lemma merged_overlay: "merged f old (overlay f old)"
  by (cases f) (simp_all add: merged_def)

lemma AddressBase_validate_list_dump:
  "AddressBase_validate_list uuid4 k (map AddressBase_model_dump xs) = xs"
  by (induction xs) (simp_all add: AddressBase_model_dump_def)

lemma AddressBase_validate_list_has_id:
  "list_all has_id ds \<Longrightarrow> AddressBase_validate_list uuid4 k ds = map address_of ds"
  by (induction ds) simp_all

lemma AddressBase_validate_list_fields:
  "map (\<lambda>a. a\<lparr>AddressBase.id' := z\<rparr>) (AddressBase_validate_list uuid4 k ds)
     = map (\<lambda>d. (address_of d)\<lparr>AddressBase.id' := z\<rparr>) ds"
  by (induction ds arbitrary: k) simp_all

lemma update_address_frame:
  "map_of sa i = Some ca \<and> update_address now i ua sa = (Inr na, sa') \<longrightarrow>
      merged (AddressUpdate.street ua) (AddressBase.street ca) (AddressBase.street na)
      \<and> merged (AddressUpdate.city ua) (AddressBase.city ca) (AddressBase.city na)
      \<and> merged (AddressUpdate.state ua) (AddressBase.state ca) (AddressBase.state na)
      \<and> merged (AddressUpdate.postal_code ua) (AddressBase.postal_code ca)
           (AddressBase.postal_code na)
      \<and> merged (AddressUpdate.country ua) (AddressBase.country ca) (AddressBase.country na)
      \<and> AddressBase.id' na = AddressBase.id' ca
      \<and> AddressRead.created_at na = AddressRead.created_at ca
      \<and> AddressRead.updated_at na = now
      \<and> (AddressRead.updated_at ca < AddressRead.updated_at na
           \<longleftrightarrow> AddressRead.updated_at ca < now)
      \<and> sa' = dict_set i na sa
      \<and> map_of sa' i = Some na
      \<and> (\<forall>k. k \<noteq> i \<longrightarrow> map_of sa' k = map_of sa k)"
  by (auto simp: update_address_def Let_def AddressRead_merge_def merged_overlay
      map_of_dict_set)


lemma update_person_frame:
  "map_of sp i = Some cp \<and> update_person now uuid4 i up sp = (Inr np, sp') \<longrightarrow>
      merged (PersonUpdate.uni up) (PersonBase.uni cp) (PersonBase.uni np)
      \<and> merged (PersonUpdate.first_name up) (PersonBase.first_name cp)
           (PersonBase.first_name np)
      \<and> merged (PersonUpdate.last_name up) (PersonBase.last_name cp) (PersonBase.last_name np)
      \<and> merged (PersonUpdate.email up) (PersonBase.email cp) (PersonBase.email np)
      \<and> merged (PersonUpdate.phone up) (PersonBase.phone cp) (PersonBase.phone np)
      \<and> merged (PersonUpdate.birth_date up) (PersonBase.birth_date cp)
           (PersonBase.birth_date np)
      \<and> (case PersonUpdate.addresses up of
            Unset \<Rightarrow> PersonBase.addresses np = PersonBase.addresses cp
          | Supplied None \<Rightarrow> False
          | Supplied (Some ds) \<Rightarrow>
              PersonBase.addresses np = AddressBase_validate_list uuid4 0 ds
              \<and> (list_all has_id ds \<longrightarrow> PersonBase.addresses np = map address_of ds)
              \<and> map (\<lambda>a. a\<lparr>AddressBase.id' := 0\<rparr>) (PersonBase.addresses np)
                  = map (\<lambda>d. (address_of d)\<lparr>AddressBase.id' := 0\<rparr>) ds)
      \<and> PersonBase.id' np = PersonBase.id' cp
      \<and> PersonRead.created_at np = PersonRead.created_at cp
      \<and> PersonRead.updated_at np = now
      \<and> (PersonRead.updated_at cp < PersonRead.updated_at np
           \<longleftrightarrow> PersonRead.updated_at cp < now)
      \<and> sp' = dict_set i np sp
      \<and> map_of sp' i = Some np
      \<and> (\<forall>k. k \<noteq> i \<longrightarrow> map_of sp' k = map_of sp k)"
  by (auto simp: update_person_def Let_def PersonRead_merge_def merged_overlay
      AddressBase_validate_list_dump AddressBase_validate_list_has_id
      AddressBase_validate_list_fields map_of_dict_set
      split: option.splits field.splits)



lemma update_organization_frame:
  "map_of sg i = Some cg \<and> update_organization now uuid4 i ug sg = (Inr ng, sg') \<longrightarrow>
      merged (OrganizationUpdate.org_name ug) (Some (OrganizationBase.org_name cg))
        (Some (OrganizationBase.org_name ng))
      \<and> merged (OrganizationUpdate.email ug) (Some (OrganizationBase.email cg))
           (Some (OrganizationBase.email ng))
      \<and> merged (OrganizationUpdate.phone ug) (OrganizationBase.phone cg)
           (OrganizationBase.phone ng)
      \<and> (case OrganizationUpdate.address ug of
            Unset \<Rightarrow> OrganizationBase.address ng = OrganizationBase.address cg
          | Supplied None \<Rightarrow> False
          | Supplied (Some d) \<Rightarrow>
              OrganizationBase.address ng
                = (if has_id d then address_of d
                   else (address_of d)\<lparr>AddressBase.id' := uuid4 0\<rparr>))
      \<and> OrganizationBase.id' ng = OrganizationBase.id' cg
      \<and> OrganizationRead.created_at ng = OrganizationRead.created_at cg
      \<and> OrganizationRead.updated_at ng = now
      \<and> (OrganizationRead.updated_at cg < OrganizationRead.updated_at ng
           \<longleftrightarrow> OrganizationRead.updated_at cg < now)
      \<and> sg' = dict_set i ng sg
      \<and> map_of sg' i = Some ng
      \<and> (\<forall>k. k \<noteq> i \<longrightarrow> map_of sg' k = map_of sg k)"
  by (auto simp: update_organization_def Let_def OrganizationRead_validate_def
      organization_dict_update_def OrganizationRead_model_dump_def merged_def
      AddressBase_validate_def AddressBase_model_dump_def map_of_dict_set
      split: option.splits field.splits)



lemma those_validate_Str: "those (map (UNIType_validate \<circ> Str) xs) = Some xs"
  by (induction xs) simp_all

lemma those_validate_UUID:
  "those (map (UNIType_validate \<circ> UUID) ids) = (if ids = [] then Some [] else None)"
  by (cases ids) simp_all

lemma update_house_frame:
  "map_of sh i = Some ch \<and> update_house now uuid4 i uh sh = (Inr nh, sh') \<longrightarrow>
      merged (HouseUpdate.phone uh) (HouseBase.phone ch) (HouseBase.phone nh)
      \<and> (case HouseUpdate.address uh of
            Unset \<Rightarrow> HouseBase.address nh = HouseBase.address ch
          | Supplied None \<Rightarrow> False
          | Supplied (Some d) \<Rightarrow>
              HouseBase.address nh
                = (if has_id d then address_of d
                   else (address_of d)\<lparr>AddressBase.id' := uuid4 0\<rparr>))
      \<and> (HouseUpdate.people uh = Unset \<longrightarrow> HouseBase.people nh = HouseBase.people ch)
      \<and> (HouseUpdate.people uh = Supplied (Some []) \<longrightarrow> HouseBase.people nh = [])
      \<and> HouseBase.id' nh = HouseBase.id' ch
      \<and> HouseRead.created_at nh = HouseRead.created_at ch
      \<and> HouseRead.updated_at nh = now
      \<and> (HouseRead.updated_at ch < HouseRead.updated_at nh
           \<longleftrightarrow> HouseRead.updated_at ch < now)
      \<and> sh' = dict_set i nh sh
      \<and> map_of sh' i = Some nh
      \<and> (\<forall>k. k \<noteq> i \<longrightarrow> map_of sh' k = map_of sh k)"
proof (cases "HouseUpdate.people uh")
  case Unset
  then show ?thesis
    by (auto simp: update_house_def Let_def HouseRead_validate_def house_dict_update_def
        HouseRead_model_dump_def HouseUpdate_model_dump_people_def those_validate_Str
        merged_def AddressBase_validate_def AddressBase_model_dump_def map_of_dict_set
        split: option.splits field.splits)
next
  case (Supplied v)
  show ?thesis
  proof (cases v)
    case None
    with Supplied show ?thesis
      by (auto simp: update_house_def Let_def HouseRead_validate_def house_dict_update_def
          HouseRead_model_dump_def HouseUpdate_model_dump_people_def map_of_dict_set
          split: option.splits)
  next
    case (Some ids)
    with Supplied show ?thesis
      by (auto simp: update_house_def Let_def HouseRead_validate_def house_dict_update_def
          HouseRead_model_dump_def HouseUpdate_model_dump_people_def those_validate_UUID
          merged_def AddressBase_validate_def AddressBase_model_dump_def map_of_dict_set
          split: option.splits if_splits field.splits)
  qed
qed



text \<open>
  No update that supplies a non-empty list of residents is accepted: its elements are
  \<^verbatim>\<open>UUID\<close> objects, which the \<^verbatim>\<open>HouseRead\<close> constructor refuses.
\<close>

lemma HouseRead_validate_people:
  "HouseRead_validate uuid4 (house_dict_update (HouseRead_model_dump cur)
      (u\<lparr>HouseUpdate.people := Supplied (Some (x # xs))\<rparr>)) = None"
  by (simp add: HouseRead_validate_def house_dict_update_def HouseRead_model_dump_def
      HouseUpdate_model_dump_people_def split: option.splits)

lemma update_house_people_nonempty:
  "fst (update_house now uuid4 i (u\<lparr>HouseUpdate.people := Supplied (Some (x # xs))\<rparr>) sh)
     \<in> {Inl (HTTPException 404 ''House not found''), Inl ValidationError}
   \<and> snd (update_house now uuid4 i (u\<lparr>HouseUpdate.people := Supplied (Some (x # xs))\<rparr>) sh) = sh"
  by (simp add: update_house_def HouseRead_validate_people split: option.splits)

section \<open>Timestamps of the stored records\<close>

text \<open>
  A create adds at most one record, stamped with its two readings; an update replaces at
  most one record by one with the same \<open>created_at\<close> and the reading as \<open>updated_at\<close>.
\<close>

lemma create_address_values:
  "r \<in> set (dict_values (snd (create_address t1 t2 a d))) \<Longrightarrow>
     r \<in> set (dict_values d) \<or> (AddressRead.created_at r = t1 \<and> AddressRead.updated_at r = t2)"
  using dict_values_dict_set[of "AddressBase.id' a" "AddressRead_of_create t1 t2 a" d]
  by (auto simp: create_address_def Let_def AddressRead_of_create_def AddressBase.defs
      split: if_splits)

lemma create_person_values:
  "r \<in> set (dict_values (snd (create_person t1 t2 a d))) \<Longrightarrow>
     r \<in> set (dict_values d) \<or> (PersonRead.created_at r = t1 \<and> PersonRead.updated_at r = t2)"
  using dict_values_dict_set[of "PersonBase.id' (PersonRead_of_create t1 t2 a)"
      "PersonRead_of_create t1 t2 a" d]
  by (auto simp: create_person_def Let_def PersonRead_of_create_def PersonBase.defs
      split: if_splits)

lemma create_organization_values:
  "r \<in> set (dict_values (snd (create_organization t1 t2 a d))) \<Longrightarrow>
     r \<in> set (dict_values d)
     \<or> (OrganizationRead.created_at r = t1 \<and> OrganizationRead.updated_at r = t2)"
  using dict_values_dict_set[of "OrganizationBase.id' (OrganizationRead_of_create t1 t2 a)"
      "OrganizationRead_of_create t1 t2 a" d]
  by (auto simp: create_organization_def Let_def OrganizationRead_of_create_def
      OrganizationBase.defs split: if_splits)

lemma create_house_values:
  "r \<in> set (dict_values (snd (create_house t1 t2 a d))) \<Longrightarrow>
     r \<in> set (dict_values d) \<or> (HouseRead.created_at r = t1 \<and> HouseRead.updated_at r = t2)"
proof (cases "create_house t1 t2 a d")
  case (Pair res d')
  assume r: "r \<in> set (dict_values (snd (create_house t1 t2 a d)))"
  show ?thesis
  proof (cases res)
    case (Inl e)
    with Pair have "d' = d"
      by (auto simp: create_house_def split: if_splits option.splits)
    with r Pair show ?thesis by simp
  next
    case (Inr new)
    with Pair have new: "d' = dict_set (HouseBase.id' new) new d"
      "HouseRead.created_at new = t1" "HouseRead.updated_at new = t2"
      by (auto simp: create_house_def HouseRead_of_create_def split: if_splits option.splits)
    with r Pair dict_values_dict_set[of "HouseBase.id' new" new d] show ?thesis
      by auto
  qed
qed

lemma update_address_values:
  "r \<in> set (dict_values (snd (update_address now i u d))) \<Longrightarrow>
     r \<in> set (dict_values d)
     \<or> (\<exists>cur \<in> set (dict_values d).
           AddressRead.created_at r = AddressRead.created_at cur \<and> AddressRead.updated_at r = now)"
proof (cases "map_of d i")
  case None
  assume "r \<in> set (dict_values (snd (update_address now i u d)))"
  with None show ?thesis by (simp add: update_address_def)
next
  case (Some cur)
  assume r: "r \<in> set (dict_values (snd (update_address now i u d)))"
  obtain res d' where upd: "update_address now i u d = (res, d')"
    by (cases "update_address now i u d")
  from Some upd obtain new where new: "res = Inr new" "d' = dict_set i new d"
    by (auto simp: update_address_def Let_def)
  from update_address_frame[of d i cur now u new d'] Some upd new
  have "AddressRead.created_at new = AddressRead.created_at cur" "AddressRead.updated_at new = now"
    by simp_all
  with r upd new dict_values_dict_set[of i new d] value_of_map_of[OF Some] show ?thesis
    by auto
qed

lemma update_person_values:
  "r \<in> set (dict_values (snd (update_person now uuid4 i u d))) \<Longrightarrow>
     r \<in> set (dict_values d)
     \<or> (\<exists>cur \<in> set (dict_values d).
           PersonRead.created_at r = PersonRead.created_at cur \<and> PersonRead.updated_at r = now)"
proof (cases "update_person now uuid4 i u d")
  case (Pair res d')
  assume r: "r \<in> set (dict_values (snd (update_person now uuid4 i u d)))"
  show ?thesis
  proof (cases res)
    case (Inl e)
    with Pair have "d' = d"
      by (auto simp: update_person_def Let_def split: option.splits)
    with r Pair show ?thesis by simp
  next
    case (Inr new)
    with Pair obtain cur where cur: "map_of d i = Some cur"
      by (auto simp: update_person_def split: option.splits)
    from update_person_frame[of d i cur now uuid4 u new d'] cur Pair Inr
    have "PersonRead.created_at new = PersonRead.created_at cur"
      "PersonRead.updated_at new = now" "d' = dict_set i new d"
      by simp_all
    with r Pair dict_values_dict_set[of i new d] value_of_map_of[OF cur] show ?thesis
      by auto
  qed
qed

lemma update_organization_values:
  "r \<in> set (dict_values (snd (update_organization now uuid4 i u d))) \<Longrightarrow>
     r \<in> set (dict_values d)
     \<or> (\<exists>cur \<in> set (dict_values d).
           OrganizationRead.created_at r = OrganizationRead.created_at cur
           \<and> OrganizationRead.updated_at r = now)"
proof (cases "update_organization now uuid4 i u d")
  case (Pair res d')
  assume r: "r \<in> set (dict_values (snd (update_organization now uuid4 i u d)))"
  show ?thesis
  proof (cases res)
    case (Inl e)
    with Pair have "d' = d"
      by (auto simp: update_organization_def Let_def split: option.splits)
    with r Pair show ?thesis by simp
  next
    case (Inr new)
    with Pair obtain cur where cur: "map_of d i = Some cur"
      by (auto simp: update_organization_def split: option.splits)
    from update_organization_frame[of d i cur now uuid4 u new d'] cur Pair Inr
    have "OrganizationRead.created_at new = OrganizationRead.created_at cur"
      "OrganizationRead.updated_at new = now" "d' = dict_set i new d"
      by simp_all
    with r Pair dict_values_dict_set[of i new d] value_of_map_of[OF cur] show ?thesis
      by auto
  qed
qed

lemma update_house_values:
  "r \<in> set (dict_values (snd (update_house now uuid4 i u d))) \<Longrightarrow>
     r \<in> set (dict_values d)
     \<or> (\<exists>cur \<in> set (dict_values d).
           HouseRead.created_at r = HouseRead.created_at cur \<and> HouseRead.updated_at r = now)"
proof (cases "update_house now uuid4 i u d")
  case (Pair res d')
  assume r: "r \<in> set (dict_values (snd (update_house now uuid4 i u d)))"
  show ?thesis
  proof (cases res)
    case (Inl e)
    with Pair have "d' = d"
      by (auto simp: update_house_def Let_def split: option.splits)
    with r Pair show ?thesis by simp
  next
    case (Inr new)
    with Pair obtain cur where cur: "map_of d i = Some cur"
      by (auto simp: update_house_def split: option.splits)
    from update_house_frame[of d i cur now uuid4 u new d'] cur Pair Inr
    have "HouseRead.created_at new = HouseRead.created_at cur"
      "HouseRead.updated_at new = now" "d' = dict_set i new d"
      by simp_all
    with r Pair dict_values_dict_set[of i new d] value_of_map_of[OF cur] show ?thesis
      by auto
  qed
qed

lemma create_address_stamps:
  assumes "x \<in> set (map address_stamp (dict_values (snd (create_address t1 t2 a d))))"
  shows "x \<in> set (map address_stamp (dict_values d)) \<or> x = (t1, t2)"
proof -
  from assms obtain r where "r \<in> set (dict_values (snd (create_address t1 t2 a d)))"
    "x = address_stamp r" by auto
  with create_address_values[of r t1 t2 a d] show ?thesis
    by (auto simp: address_stamp_def)
qed

lemma create_person_stamps:
  assumes "x \<in> set (map person_stamp (dict_values (snd (create_person t1 t2 a d))))"
  shows "x \<in> set (map person_stamp (dict_values d)) \<or> x = (t1, t2)"
proof -
  from assms obtain r where "r \<in> set (dict_values (snd (create_person t1 t2 a d)))"
    "x = person_stamp r" by auto
  with create_person_values[of r t1 t2 a d] show ?thesis
    by (auto simp: person_stamp_def)
qed

lemma create_organization_stamps:
  assumes "x \<in> set (map organization_stamp (dict_values (snd (create_organization t1 t2 a d))))"
  shows "x \<in> set (map organization_stamp (dict_values d)) \<or> x = (t1, t2)"
proof -
  from assms obtain r where "r \<in> set (dict_values (snd (create_organization t1 t2 a d)))"
    "x = organization_stamp r" by auto
  with create_organization_values[of r t1 t2 a d] show ?thesis
    by (auto simp: organization_stamp_def)
qed

lemma create_house_stamps:
  assumes "x \<in> set (map house_stamp (dict_values (snd (create_house t1 t2 a d))))"
  shows "x \<in> set (map house_stamp (dict_values d)) \<or> x = (t1, t2)"
proof -
  from assms obtain r where "r \<in> set (dict_values (snd (create_house t1 t2 a d)))"
    "x = house_stamp r" by auto
  with create_house_values[of r t1 t2 a d] show ?thesis
    by (auto simp: house_stamp_def)
qed

lemma update_address_stamps:
  assumes "(c, u) \<in> set (map address_stamp (dict_values (snd (update_address now i up d))))"
  shows "(c, u) \<in> set (map address_stamp (dict_values d))
    \<or> (u = now \<and> (\<exists>u0. (c, u0) \<in> set (map address_stamp (dict_values d))))"
proof -
  from assms obtain r where r: "r \<in> set (dict_values (snd (update_address now i up d)))"
    "(c, u) = address_stamp r" by auto
  from update_address_values[OF r(1)] show ?thesis
  proof
    assume "r \<in> set (dict_values d)"
    with r(2) show ?thesis by auto
  next
    assume "\<exists>cur \<in> set (dict_values d).
      AddressRead.created_at r = AddressRead.created_at cur \<and> AddressRead.updated_at r = now"
    then obtain cur where "cur \<in> set (dict_values d)"
      "AddressRead.created_at r = AddressRead.created_at cur" "AddressRead.updated_at r = now"
      by blast
    with r(2) have "u = now" "(c, AddressRead.updated_at cur) = address_stamp cur"
      "address_stamp cur \<in> set (map address_stamp (dict_values d))"
      by (simp_all add: address_stamp_def)
    then show ?thesis by metis
  qed
qed

lemma update_person_stamps:
  assumes "(c, u) \<in> set (map person_stamp (dict_values (snd (update_person now uuid4 i up d))))"
  shows "(c, u) \<in> set (map person_stamp (dict_values d))
    \<or> (u = now \<and> (\<exists>u0. (c, u0) \<in> set (map person_stamp (dict_values d))))"
proof -
  from assms obtain r where r: "r \<in> set (dict_values (snd (update_person now uuid4 i up d)))"
    "(c, u) = person_stamp r" by auto
  from update_person_values[OF r(1)] show ?thesis
  proof
    assume "r \<in> set (dict_values d)"
    with r(2) show ?thesis by auto
  next
    assume "\<exists>cur \<in> set (dict_values d).
      PersonRead.created_at r = PersonRead.created_at cur \<and> PersonRead.updated_at r = now"
    then obtain cur where "cur \<in> set (dict_values d)"
      "PersonRead.created_at r = PersonRead.created_at cur" "PersonRead.updated_at r = now"
      by blast
    with r(2) have "u = now" "(c, PersonRead.updated_at cur) = person_stamp cur"
      "person_stamp cur \<in> set (map person_stamp (dict_values d))"
      by (simp_all add: person_stamp_def)
    then show ?thesis by metis
  qed
qed

lemma update_organization_stamps:
  assumes "(c, u)
    \<in> set (map organization_stamp (dict_values (snd (update_organization now uuid4 i up d))))"
  shows "(c, u) \<in> set (map organization_stamp (dict_values d))
    \<or> (u = now \<and> (\<exists>u0. (c, u0) \<in> set (map organization_stamp (dict_values d))))"
proof -
  from assms obtain r where r: "r \<in> set (dict_values (snd (update_organization now uuid4 i up d)))"
    "(c, u) = organization_stamp r" by auto
  from update_organization_values[OF r(1)] show ?thesis
  proof
    assume "r \<in> set (dict_values d)"
    with r(2) show ?thesis by auto
  next
    assume "\<exists>cur \<in> set (dict_values d).
      OrganizationRead.created_at r = OrganizationRead.created_at cur
      \<and> OrganizationRead.updated_at r = now"
    then obtain cur where "cur \<in> set (dict_values d)"
      "OrganizationRead.created_at r = OrganizationRead.created_at cur"
      "OrganizationRead.updated_at r = now"
      by blast
    with r(2) have "u = now" "(c, OrganizationRead.updated_at cur) = organization_stamp cur"
      "organization_stamp cur \<in> set (map organization_stamp (dict_values d))"
      by (simp_all add: organization_stamp_def)
    then show ?thesis by metis
  qed
qed

lemma update_house_stamps:
  assumes "(c, u) \<in> set (map house_stamp (dict_values (snd (update_house now uuid4 i up d))))"
  shows "(c, u) \<in> set (map house_stamp (dict_values d))
    \<or> (u = now \<and> (\<exists>u0. (c, u0) \<in> set (map house_stamp (dict_values d))))"
proof -
  from assms obtain r where r: "r \<in> set (dict_values (snd (update_house now uuid4 i up d)))"
    "(c, u) = house_stamp r" by auto
  from update_house_values[OF r(1)] show ?thesis
  proof
    assume "r \<in> set (dict_values d)"
    with r(2) show ?thesis by auto
  next
    assume "\<exists>cur \<in> set (dict_values d).
      HouseRead.created_at r = HouseRead.created_at cur \<and> HouseRead.updated_at r = now"
    then obtain cur where "cur \<in> set (dict_values d)"
      "HouseRead.created_at r = HouseRead.created_at cur" "HouseRead.updated_at r = now"
      by blast
    with r(2) have "u = now" "(c, HouseRead.updated_at cur) = house_stamp cur"
      "house_stamp cur \<in> set (map house_stamp (dict_values d))"
      by (simp_all add: house_stamp_def)
    then show ?thesis by metis
  qed
qed

lemma handle_stamps:
  assumes "(c, u) \<in> set (stamps (handle r s))"
  shows "(c, u) \<in> set (stamps s)
    \<or> readings r = [c, u]
    \<or> (readings r = [u] \<and> (\<exists>u0. (c, u0) \<in> set (stamps s)))"
proof (cases r)
  case (CreateAddress t1 t2 a)
  from assms have "(c, u) \<in> set (stamps (s\<lparr>addresses := snd (create_address t1 t2 a (addresses s))\<rparr>))"
    by (simp add: CreateAddress)
  with create_address_stamps[of "(c, u)" t1 t2 a "addresses s"]
  have "(c, u) \<in> set (stamps s) \<or> (c, u) = (t1, t2)"
    by (auto simp: stamps_def simp del: set_map)
  then show ?thesis
    by (auto simp: CreateAddress)
next
  case (UpdateAddress now i up)
  from assms have "(c, u) \<in> set (stamps (s\<lparr>addresses := snd (update_address now i up (addresses s))\<rparr>))"
    by (simp add: UpdateAddress)
  with update_address_stamps[of c u now i up "addresses s"]
  have "(c, u) \<in> set (stamps s) \<or> (u = now \<and> (\<exists>u0. (c, u0) \<in> set (stamps s)))"
    by (auto simp: stamps_def simp del: set_map)
  then show ?thesis
    by (auto simp: UpdateAddress)
next
  case (CreatePerson t1 t2 a)
  from assms have "(c, u) \<in> set (stamps (s\<lparr>persons := snd (create_person t1 t2 a (persons s))\<rparr>))"
    by (simp add: CreatePerson)
  with create_person_stamps[of "(c, u)" t1 t2 a "persons s"]
  have "(c, u) \<in> set (stamps s) \<or> (c, u) = (t1, t2)"
    by (auto simp: stamps_def simp del: set_map)
  then show ?thesis
    by (auto simp: CreatePerson)
next
  case (UpdatePerson now uuid4 i up)
  from assms have "(c, u) \<in> set (stamps (s\<lparr>persons := snd (update_person now uuid4 i up (persons s))\<rparr>))"
    by (simp add: UpdatePerson)
  with update_person_stamps[of c u now uuid4 i up "persons s"]
  have "(c, u) \<in> set (stamps s) \<or> (u = now \<and> (\<exists>u0. (c, u0) \<in> set (stamps s)))"
    by (auto simp: stamps_def simp del: set_map)
  then show ?thesis
    by (auto simp: UpdatePerson)
next
  case (CreateOrganization t1 t2 a)
  from assms have "(c, u) \<in> set (stamps (s\<lparr>organizations := snd (create_organization t1 t2 a (organizations s))\<rparr>))"
    by (simp add: CreateOrganization)
  with create_organization_stamps[of "(c, u)" t1 t2 a "organizations s"]
  have "(c, u) \<in> set (stamps s) \<or> (c, u) = (t1, t2)"
    by (auto simp: stamps_def simp del: set_map)
  then show ?thesis
    by (auto simp: CreateOrganization)
next
  case (UpdateOrganization now uuid4 i up)
  from assms have "(c, u) \<in> set (stamps (s\<lparr>organizations := snd (update_organization now uuid4 i up (organizations s))\<rparr>))"
    by (simp add: UpdateOrganization)
  with update_organization_stamps[of c u now uuid4 i up "organizations s"]
  have "(c, u) \<in> set (stamps s) \<or> (u = now \<and> (\<exists>u0. (c, u0) \<in> set (stamps s)))"
    by (auto simp: stamps_def simp del: set_map)
  then show ?thesis
    by (auto simp: UpdateOrganization)
next
  case (CreateHouse t1 t2 a)
  from assms have "(c, u) \<in> set (stamps (s\<lparr>houses := snd (create_house t1 t2 a (houses s))\<rparr>))"
    by (simp add: CreateHouse)
  with create_house_stamps[of "(c, u)" t1 t2 a "houses s"]
  have "(c, u) \<in> set (stamps s) \<or> (c, u) = (t1, t2)"
    by (auto simp: stamps_def simp del: set_map)
  then show ?thesis
    by (auto simp: CreateHouse)
next
  case (UpdateHouse now uuid4 i up)
  from assms have "(c, u) \<in> set (stamps (s\<lparr>houses := snd (update_house now uuid4 i up (houses s))\<rparr>))"
    by (simp add: UpdateHouse)
  with update_house_stamps[of c u now uuid4 i up "houses s"]
  have "(c, u) \<in> set (stamps s) \<or> (u = now \<and> (\<exists>u0. (c, u0) \<in> set (stamps s)))"
    by (auto simp: stamps_def simp del: set_map)
  then show ?thesis
    by (auto simp: UpdateHouse)
qed

lemma run_stamps:
  "sorted (concat (map readings rs)) \<Longrightarrow>
   (\<And>c u. (c, u) \<in> set (stamps s) \<Longrightarrow>
      c \<le> u \<and> (\<forall>t \<in> set (concat (map readings rs)). u \<le> t)) \<Longrightarrow>
   (c, u) \<in> set (stamps (run rs s)) \<Longrightarrow> c \<le> u"
proof (induction rs arbitrary: s)
  case Nil
  then show ?case by auto
next
  case (Cons r rs)
  let ?rest = "concat (map readings rs)"
  from Cons.prems(1) have sorted_r: "sorted (readings r)" and sorted_rest: "sorted ?rest"
    and before: "\<And>x t. x \<in> set (readings r) \<Longrightarrow> t \<in> set ?rest \<Longrightarrow> x \<le> t"
    by (auto simp: sorted_append)
  have old_ok: "c' \<le> u' \<and> (\<forall>t \<in> set (readings r). u' \<le> t) \<and> (\<forall>t \<in> set ?rest. u' \<le> t)"
    if "(c', u') \<in> set (stamps s)" for c' u'
    using Cons.prems(2)[OF that] by auto
  have "c' \<le> u' \<and> (\<forall>t \<in> set ?rest. u' \<le> t)"
    if "(c', u') \<in> set (stamps (handle r s))" for c' u'
  proof -
    from handle_stamps[OF that]
    consider (old) "(c', u') \<in> set (stamps s)"
      | (created) "readings r = [c', u']"
      | (updated) u0 where "readings r = [u']" "(c', u0) \<in> set (stamps s)"
      by blast
    then show ?thesis
    proof cases
      case old
      with old_ok show ?thesis by blast
    next
      case created
      with sorted_r before[of u'] show ?thesis by simp
    next
      case updated
      from old_ok[OF updated(2)] updated(1) have "c' \<le> u0" "u0 \<le> u'" by simp_all
      with updated(1) before[of u'] show ?thesis by simp
    qed
  qed
  from Cons.IH[OF sorted_rest this] Cons.prems(3) show ?case by simp
qed

lemma stamps_initial: "stamps initial = []"
  by (simp add: stamps_def initial_def dict_values_def)

lemma stored_stamps:
  "map_of (persons s) k = Some rp \<Longrightarrow> person_stamp rp \<in> set (stamps s)"
  "map_of (addresses s) k = Some ra \<Longrightarrow> address_stamp ra \<in> set (stamps s)"
  "map_of (organizations s) k = Some rg \<Longrightarrow> organization_stamp rg \<in> set (stamps s)"
  "map_of (houses s) k = Some rh \<Longrightarrow> house_stamp rh \<in> set (stamps s)"
  by (auto simp: stamps_def dest: value_of_map_of)

section \<open>The examples, evaluated\<close>







lemma example_run:
  "run house_abc_requests initial
     = \<lparr>persons = [(3, person_ada_read None 20 20)], addresses = [], organizations = [],
        houses = [(1, house_abc_phone_read)]\<rparr>"
  by (simp add: house_abc_requests_def initial_def
      create_house_def dict_contains_def HouseRead_of_create_def house_abc_def
      update_house_def HouseRead_validate_def house_dict_update_def HouseRead_model_dump_def
      HouseUpdate_model_dump_people_def house_phone_def create_person_def Let_def
      PersonRead_of_create_def PersonBase.defs person_ada_def person_ada_read_def
      house_abc_phone_read_def AddressBase_validate_def AddressBase_model_dump_def)

section \<open>Claim C1: a partial update overwrites the supplied fields only\<close>




section \<open>Claim C2: creating under an identifier that is present\<close>

text \<open>
  Claim C2: for every store of addresses, organizations and houses, a create whose
  payload carries an identifier that is already a key of the store fails with
  \<^verbatim>\<open>HTTPException(400)\<close> and returns the store as it was.
\<close>

theorem create_duplicate_identifier:
  "(dict_contains (AddressBase.id' a) sa \<longrightarrow>
      create_address t1 t2 a sa
        = (Inl (HTTPException 400 ''Address with this ID already exists''), sa))
   \<and> (dict_contains (OrganizationBase.id' g) sg \<longrightarrow>
      create_organization t1 t2 g sg
        = (Inl (HTTPException 400 ''Organization with this ID already exists''), sg))
   \<and> (dict_contains (HouseCreate.id' h) sh \<longrightarrow>
      create_house t1 t2 h sh
        = (Inl (HTTPException 400 ''House with this ID already exists''), sh))"
  by (simp add: create_address_def create_organization_def create_house_def)

text \<open>Claim C2 on three stores that hold the identifier of the payload.\<close>

theorem create_duplicate_identifier_witness:
  "dict_contains (AddressBase.id' address_main_st)
       [(1, AddressRead_of_create 10 10 address_main_st)]
   \<and> create_address 30 31 address_main_st [(1, AddressRead_of_create 10 10 address_main_st)]
       = (Inl (HTTPException 400 ''Address with this ID already exists''),
          [(1, AddressRead_of_create 10 10 address_main_st)])
   \<and> dict_contains (OrganizationBase.id' organization_cs)
       [(2, OrganizationRead_of_create 10 10 organization_cs)]
   \<and> create_organization 30 31 organization_cs
         [(2, OrganizationRead_of_create 10 10 organization_cs)]
       = (Inl (HTTPException 400 ''Organization with this ID already exists''),
          [(2, OrganizationRead_of_create 10 10 organization_cs)])
   \<and> dict_contains (HouseCreate.id' house_abc) [(1, house_abc_read 10 10)]
   \<and> create_house 30 31 house_abc [(1, house_abc_read 10 10)]
       = (Inl (HTTPException 400 ''House with this ID already exists''),
          [(1, house_abc_read 10 10)])"
proof -
  have a: "dict_contains (AddressBase.id' address_main_st)
      [(1, AddressRead_of_create 10 10 address_main_st)]"
    by (simp add: dict_contains_def address_main_st_def)
  have g: "dict_contains (OrganizationBase.id' organization_cs)
      [(2, OrganizationRead_of_create 10 10 organization_cs)]"
    by (simp add: dict_contains_def organization_cs_def)
  have h: "dict_contains (HouseCreate.id' house_abc) [(1, house_abc_read 10 10)]"
    by (simp add: dict_contains_def house_abc_def)
  note dup = create_duplicate_identifier[where ?t1.0 = 30 and ?t2.0 = 31]
  from a g h dup[THEN conjunct1, THEN mp, OF a]
    dup[THEN conjunct2, THEN conjunct1, THEN mp, OF g]
    dup[THEN conjunct2, THEN conjunct2, THEN mp, OF h]
  show ?thesis by blast
qed

section \<open>Claim C3: creating a person always succeeds\<close>

text \<open>
  Claim C3: for every store of persons and every create payload, whether or not its
  identifier is present, \<open>create_person\<close> returns a person record (never an error): the
  record built from the payload, which is then what the store holds under the payload's
  identifier.
\<close>

theorem create_person_succeeds:
  "fst (create_person t1 t2 p sp) = Inr (PersonRead_of_create t1 t2 p)
   \<and> PersonBase.truncate (PersonRead_of_create t1 t2 p) = p
   \<and> map_of (snd (create_person t1 t2 p sp)) (PersonBase.id' p)
       = Some (PersonRead_of_create t1 t2 p)"
  by (simp add: create_person_def Let_def PersonRead_of_create_def map_of_dict_set
      PersonBase.defs)

section \<open>Claim C4: replacing the residents of a house\<close>

text \<open>
  Claim C4 says that a house created with \<^verbatim>\<open>people=["abc1234"]\<close> and patched with
  \<^verbatim>\<open>people=["xyz9999"]\<close> shows \<^verbatim>\<open>["xyz9999"]\<close> afterwards. On the code the patch is
  refused before \<open>update_house\<close> runs, because \<^verbatim>\<open>HouseUpdate.people\<close> is a list of
  \<^verbatim>\<open>UUID\<close> and \<^verbatim>\<open>"xyz9999"\<close> is not the text of one; the house keeps \<^verbatim>\<open>["abc1234"]\<close>.
  (By \<open>update_house_people_nonempty\<close> a list of real UUIDs is refused as well.)
\<close>

theorem house_people_replacement_rejected:
  "create_house 10 10 house_abc [] = (Inr (house_abc_read 10 10), [(1, house_abc_read 10 10)])
   \<and> patch_house 20 uuid4_example 1 people_xyz [(1, house_abc_read 10 10)]
       = (Inl RequestValidationError, [(1, house_abc_read 10 10)])
   \<and> get_house 1 [(1, house_abc_read 10 10)]
       = (Inr (house_abc_read 10 10), [(1, house_abc_read 10 10)])
   \<and> HouseBase.people (house_abc_read 10 10) = [''abc1234'']"
  by (simp add: create_house_def dict_contains_def HouseRead_of_create_def house_abc_def
      house_abc_read_def patch_house_def HouseUpdate_of_body_def people_xyz_def
      UUID_of_string_def get_house_def)

section \<open>Claim C5: the city and country filters of the person listing\<close>

text \<open>
  Claim C5: for every store of persons, \<open>list_persons\<close> returns exactly the stored
  persons that match all supplied filters; with only \<open>city = X\<close> and \<open>country = Y\<close>
  supplied these are the persons with some address in city \<open>X\<close> and some address, not
  necessarily the same one, in country \<open>Y\<close>.
\<close>

theorem list_persons_filters:
  "list_persons u f l e ph b c co sp = filter (person_matches u f l e ph b c co) (dict_values sp)
   \<and> list_persons None None None None None None (Some X) (Some Y) sp
       = filter (\<lambda>p. (\<exists>addr \<in> set (PersonBase.addresses p). AddressBase.city addr = Some X)
                    \<and> (\<exists>addr \<in> set (PersonBase.addresses p). AddressBase.country addr = Some Y))
           (dict_values sp)"
proof -
  have general: "list_persons u f l e ph b c co sp
      = filter (person_matches u f l e ph b c co) (dict_values sp)" for u f l e ph b c co
    unfolding list_persons_def filter_by_filter filter_filter person_matches_def list_ex_iff
    by (rule filter_cong) auto
  have "filter (person_matches None None None None None None (Some X) (Some Y)) (dict_values sp)
      = filter (\<lambda>p. (\<exists>addr \<in> set (PersonBase.addresses p). AddressBase.city addr = Some X)
                    \<and> (\<exists>addr \<in> set (PersonBase.addresses p). AddressBase.country addr = Some Y))
           (dict_values sp)"
    by (rule filter_cong) (simp_all add: person_matches_def)
  then show ?thesis
    by (simp add: general)
qed

text \<open>
  Claim C5 on a store of two persons: the first has one address in London (UK) and one in
  New York (US) and is listed for \<open>city = London\<close>, \<open>country = US\<close>, though no single
  address of hers matches both; the second has the London address only and is not.
\<close>

theorem list_persons_filters_witness:
  "list_persons None None None None None None (Some ''London'') (Some ''US'')
       [(3, person_ada_read None 10 10), (4, person_bob_read)]
     = [person_ada_read None 10 10]"
proof -
  have ada: "(\<exists>addr \<in> set (PersonBase.addresses (person_ada_read None 10 10)).
        AddressBase.city addr = Some ''London'')
      \<and> (\<exists>addr \<in> set (PersonBase.addresses (person_ada_read None 10 10)).
        AddressBase.country addr = Some ''US'')"
    by (simp add: person_ada_read_def address_london_def address_new_york_def)
  have bob: "\<not> (\<exists>addr \<in> set (PersonBase.addresses person_bob_read).
        AddressBase.country addr = Some ''US'')"
    by (simp add: person_bob_read_def address_london_def)
  from list_persons_filters[THEN conjunct2, of "''London''" "''US''"
      "[(3, person_ada_read None 10 10), (4, person_bob_read)]"] ada bob
  show ?thesis
    by (simp add: dict_values_def)
qed

section \<open>Claim C6: a created record, fetched\<close>

text \<open>
  Claim C6, as stated, says that the record fetched after a create has
  \<open>created_at = updated_at\<close>. Each of the two timestamps comes from its own call of the
  clock; when the clock advances between the calls, they differ.
\<close>

theorem create_get_timestamps_differ:
  "create_house 10 11 house_abc [] = (Inr (house_abc_read 10 11), [(1, house_abc_read 10 11)])
   \<and> get_house 1 [(1, house_abc_read 10 11)]
       = (Inr (house_abc_read 10 11), [(1, house_abc_read 10 11)])
   \<and> HouseRead.created_at (house_abc_read 10 11) \<noteq> HouseRead.updated_at (house_abc_read 10 11)"
  by (simp add: create_house_def dict_contains_def HouseRead_of_create_def house_abc_def
      house_abc_read_def get_house_def)

text \<open>
  Claim C6, amended: for every entity kind and every create payload on which the create
  succeeds, the get with the returned identifier succeeds and returns the created record;
  every field of the payload is in it unchanged; \<open>created_at\<close> and \<open>updated_at\<close> are
  the first and the second reading of the clock taken by the create, so they are equal
  exactly when the two readings are.
\<close>

theorem create_then_get:
  "(create_address t1 t2 a sa = (Inr ra, sa') \<longrightarrow>
      get_address (AddressBase.id' ra) sa' = (Inr ra, sa')
      \<and> AddressBase.truncate ra = a
      \<and> AddressRead.created_at ra = t1 \<and> AddressRead.updated_at ra = t2
      \<and> (AddressRead.created_at ra = AddressRead.updated_at ra \<longleftrightarrow> t1 = t2))
   \<and> (create_person t1 t2 p sp = (Inr rp, sp') \<longrightarrow>
      get_person (PersonBase.id' rp) sp' = (Inr rp, sp')
      \<and> PersonBase.truncate rp = p
      \<and> PersonRead.created_at rp = t1 \<and> PersonRead.updated_at rp = t2
      \<and> (PersonRead.created_at rp = PersonRead.updated_at rp \<longleftrightarrow> t1 = t2))
   \<and> (create_organization t1 t2 g sg = (Inr rg, sg') \<longrightarrow>
      get_organization (OrganizationBase.id' rg) sg' = (Inr rg, sg')
      \<and> OrganizationBase.truncate rg = g
      \<and> OrganizationRead.created_at rg = t1 \<and> OrganizationRead.updated_at rg = t2
      \<and> (OrganizationRead.created_at rg = OrganizationRead.updated_at rg \<longleftrightarrow> t1 = t2))
   \<and> (create_house t1 t2 h sh = (Inr rh, sh') \<longrightarrow>
      get_house (HouseBase.id' rh) sh' = (Inr rh, sh')
      \<and> HouseBase.id' rh = HouseCreate.id' h
      \<and> HouseBase.phone rh = HouseCreate.phone h
      \<and> Some (HouseBase.address rh) = HouseCreate.address h
      \<and> HouseBase.people rh = HouseCreate.people h
      \<and> HouseRead.created_at rh = t1 \<and> HouseRead.updated_at rh = t2
      \<and> (HouseRead.created_at rh = HouseRead.updated_at rh \<longleftrightarrow> t1 = t2))"
proof -
  have addr: "create_address t1 t2 a sa = (Inr ra, sa') \<longrightarrow>
      get_address (AddressBase.id' ra) sa' = (Inr ra, sa')
      \<and> AddressBase.truncate ra = a
      \<and> AddressRead.created_at ra = t1 \<and> AddressRead.updated_at ra = t2
      \<and> (AddressRead.created_at ra = AddressRead.updated_at ra \<longleftrightarrow> t1 = t2)"
    by (auto simp: create_address_def Let_def get_address_def map_of_dict_set
        AddressRead_of_create_def AddressBase.defs split: if_splits)
  have pers: "create_person t1 t2 p sp = (Inr rp, sp') \<longrightarrow>
      get_person (PersonBase.id' rp) sp' = (Inr rp, sp')
      \<and> PersonBase.truncate rp = p
      \<and> PersonRead.created_at rp = t1 \<and> PersonRead.updated_at rp = t2
      \<and> (PersonRead.created_at rp = PersonRead.updated_at rp \<longleftrightarrow> t1 = t2)"
    by (auto simp: create_person_def Let_def get_person_def map_of_dict_set
        PersonRead_of_create_def PersonBase.defs split: if_splits)
  have org: "create_organization t1 t2 g sg = (Inr rg, sg') \<longrightarrow>
      get_organization (OrganizationBase.id' rg) sg' = (Inr rg, sg')
      \<and> OrganizationBase.truncate rg = g
      \<and> OrganizationRead.created_at rg = t1 \<and> OrganizationRead.updated_at rg = t2
      \<and> (OrganizationRead.created_at rg = OrganizationRead.updated_at rg \<longleftrightarrow> t1 = t2)"
    by (auto simp: create_organization_def Let_def get_organization_def map_of_dict_set
        OrganizationRead_of_create_def OrganizationBase.defs split: if_splits)
  have house: "create_house t1 t2 h sh = (Inr rh, sh') \<longrightarrow>
      get_house (HouseBase.id' rh) sh' = (Inr rh, sh')
      \<and> HouseBase.id' rh = HouseCreate.id' h
      \<and> HouseBase.phone rh = HouseCreate.phone h
      \<and> Some (HouseBase.address rh) = HouseCreate.address h
      \<and> HouseBase.people rh = HouseCreate.people h
      \<and> HouseRead.created_at rh = t1 \<and> HouseRead.updated_at rh = t2
      \<and> (HouseRead.created_at rh = HouseRead.updated_at rh \<longleftrightarrow> t1 = t2)"
    by (auto simp: create_house_def get_house_def map_of_dict_set
        HouseRead_of_create_def split: if_splits option.splits)
  show ?thesis
    by (rule conjI[OF addr conjI[OF pers conjI[OF org house]]])
qed

text \<open>Claim C6, the amended statement on one create of each kind into an empty store.\<close>

theorem create_then_get_witness:
  "create_address 10 11 address_main_st []
       = (Inr (AddressRead_of_create 10 11 address_main_st),
          [(1, AddressRead_of_create 10 11 address_main_st)])
   \<and> get_address 1 [(1, AddressRead_of_create 10 11 address_main_st)]
       = (Inr (AddressRead_of_create 10 11 address_main_st),
          [(1, AddressRead_of_create 10 11 address_main_st)])
   \<and> create_person 10 11 person_ada [] = (Inr (person_ada_read None 10 11),
          [(3, person_ada_read None 10 11)])
   \<and> get_person 3 [(3, person_ada_read None 10 11)]
       = (Inr (person_ada_read None 10 11), [(3, person_ada_read None 10 11)])
   \<and> create_organization 10 11 organization_cs []
       = (Inr (organization_cs_read (Some ''+1-212-555-0199'') 10 11),
          [(2, organization_cs_read (Some ''+1-212-555-0199'') 10 11)])
   \<and> get_organization 2 [(2, organization_cs_read (Some ''+1-212-555-0199'') 10 11)]
       = (Inr (organization_cs_read (Some ''+1-212-555-0199'') 10 11),
          [(2, organization_cs_read (Some ''+1-212-555-0199'') 10 11)])
   \<and> create_house 10 11 house_abc [] = (Inr (house_abc_read 10 11), [(1, house_abc_read 10 11)])
   \<and> get_house 1 [(1, house_abc_read 10 11)]
       = (Inr (house_abc_read 10 11), [(1, house_abc_read 10 11)])
   \<and> HouseBase.people (house_abc_read 10 11) = HouseCreate.people house_abc"
proof -
  have a: "create_address 10 11 address_main_st []
      = (Inr (AddressRead_of_create 10 11 address_main_st),
         [(1, AddressRead_of_create 10 11 address_main_st)])"
    by (simp add: create_address_def dict_contains_def Let_def address_main_st_def)
  have p: "create_person 10 11 person_ada [] = (Inr (person_ada_read None 10 11),
         [(3, person_ada_read None 10 11)])"
    by (simp add: create_person_def Let_def PersonRead_of_create_def person_ada_def
        person_ada_read_def PersonBase.defs)
  have g: "create_organization 10 11 organization_cs []
      = (Inr (organization_cs_read (Some ''+1-212-555-0199'') 10 11),
         [(2, organization_cs_read (Some ''+1-212-555-0199'') 10 11)])"
    by (simp add: create_organization_def dict_contains_def Let_def
        OrganizationRead_of_create_def organization_cs_def organization_cs_read_def
        OrganizationBase.defs)
  have h: "create_house 10 11 house_abc []
      = (Inr (house_abc_read 10 11), [(1, house_abc_read 10 11)])"
    by (simp add: create_house_def dict_contains_def HouseRead_of_create_def house_abc_def
        house_abc_read_def)
  note rt = create_then_get[where ?t1.0 = 10 and ?t2.0 = 11]
  from rt[THEN conjunct1, THEN mp, OF a]
  have a': "get_address 1 [(1, AddressRead_of_create 10 11 address_main_st)]
      = (Inr (AddressRead_of_create 10 11 address_main_st),
         [(1, AddressRead_of_create 10 11 address_main_st)])"
    by (simp add: AddressRead_of_create_def address_main_st_def AddressBase.defs)
  from rt[THEN conjunct2, THEN conjunct1, THEN mp, OF p]
  have p': "get_person 3 [(3, person_ada_read None 10 11)]
      = (Inr (person_ada_read None 10 11), [(3, person_ada_read None 10 11)])"
    by (simp add: person_ada_read_def)
  from rt[THEN conjunct2, THEN conjunct2, THEN conjunct1, THEN mp, OF g]
  have g': "get_organization 2 [(2, organization_cs_read (Some ''+1-212-555-0199'') 10 11)]
      = (Inr (organization_cs_read (Some ''+1-212-555-0199'') 10 11),
         [(2, organization_cs_read (Some ''+1-212-555-0199'') 10 11)])"
    by (simp add: organization_cs_read_def)
  from rt[THEN conjunct2, THEN conjunct2, THEN conjunct2, THEN mp, OF h]
  have h': "get_house 1 [(1, house_abc_read 10 11)]
        = (Inr (house_abc_read 10 11), [(1, house_abc_read 10 11)])
      \<and> HouseBase.people (house_abc_read 10 11) = HouseCreate.people house_abc"
    by (simp add: house_abc_read_def house_abc_def)
  from a p g h a' p' g' h' show ?thesis by blast
qed

section \<open>Claim C7: identifiers that are not present\<close>

text \<open>
  Claim C7: for every entity kind and every identifier that is not a key of the store,
  the get and the update fail with \<^verbatim>\<open>HTTPException(404)\<close> and return the store as it was.
\<close>

theorem not_found:
  "(\<not> dict_contains i sa \<longrightarrow>
      get_address i sa = (Inl (HTTPException 404 ''Address not found''), sa)
      \<and> update_address now i ua sa = (Inl (HTTPException 404 ''Address not found''), sa))
   \<and> (\<not> dict_contains i sp \<longrightarrow>
      get_person i sp = (Inl (HTTPException 404 ''Person not found''), sp)
      \<and> update_person now uuid4 i up sp = (Inl (HTTPException 404 ''Person not found''), sp))
   \<and> (\<not> dict_contains i sg \<longrightarrow>
      get_organization i sg = (Inl (HTTPException 404 ''Organization not found''), sg)
      \<and> update_organization now uuid4 i ug sg
          = (Inl (HTTPException 404 ''Organization not found''), sg))
   \<and> (\<not> dict_contains i sh \<longrightarrow>
      get_house i sh = (Inl (HTTPException 404 ''House not found''), sh)
      \<and> update_house now uuid4 i uh sh = (Inl (HTTPException 404 ''House not found''), sh))"
  by (simp add: dict_contains_map_of get_address_def update_address_def get_person_def
      update_person_def get_organization_def update_organization_def get_house_def
      update_house_def)

text \<open>Claim C7 on four stores and an identifier that none of them holds.\<close>

theorem not_found_witness:
  "\<not> dict_contains (9 :: uuid) [(1, AddressRead_of_create 10 10 address_main_st)]
   \<and> get_address 9 [(1, AddressRead_of_create 10 10 address_main_st)]
       = (Inl (HTTPException 404 ''Address not found''),
          [(1, AddressRead_of_create 10 10 address_main_st)])
   \<and> update_address 20 9 city_boston [(1, AddressRead_of_create 10 10 address_main_st)]
       = (Inl (HTTPException 404 ''Address not found''),
          [(1, AddressRead_of_create 10 10 address_main_st)])
   \<and> \<not> dict_contains (9 :: uuid) [(3, person_ada_read None 10 10)]
   \<and> get_person 9 [(3, person_ada_read None 10 10)]
       = (Inl (HTTPException 404 ''Person not found''), [(3, person_ada_read None 10 10)])
   \<and> update_person 20 uuid4_example 9 person_phone [(3, person_ada_read None 10 10)]
       = (Inl (HTTPException 404 ''Person not found''), [(3, person_ada_read None 10 10)])
   \<and> \<not> dict_contains (9 :: uuid) [(2, OrganizationRead_of_create 10 10 organization_cs)]
   \<and> get_organization 9 [(2, OrganizationRead_of_create 10 10 organization_cs)]
       = (Inl (HTTPException 404 ''Organization not found''),
          [(2, OrganizationRead_of_create 10 10 organization_cs)])
   \<and> update_organization 20 uuid4_example 9 phone_only [(2, OrganizationRead_of_create 10 10 organization_cs)]
       = (Inl (HTTPException 404 ''Organization not found''),
          [(2, OrganizationRead_of_create 10 10 organization_cs)])
   \<and> \<not> dict_contains (9 :: uuid) [(1, house_abc_read 10 10)]
   \<and> get_house 9 [(1, house_abc_read 10 10)]
       = (Inl (HTTPException 404 ''House not found''), [(1, house_abc_read 10 10)])
   \<and> update_house 20 uuid4_example 9 house_phone [(1, house_abc_read 10 10)]
       = (Inl (HTTPException 404 ''House not found''), [(1, house_abc_read 10 10)])"
proof -
  have a: "\<not> dict_contains (9 :: uuid) [(1, AddressRead_of_create 10 10 address_main_st)]"
    by (simp add: dict_contains_def)
  have p: "\<not> dict_contains (9 :: uuid) [(3, person_ada_read None 10 10)]"
    by (simp add: dict_contains_def)
  have g: "\<not> dict_contains (9 :: uuid) [(2, OrganizationRead_of_create 10 10 organization_cs)]"
    by (simp add: dict_contains_def)
  have h: "\<not> dict_contains (9 :: uuid) [(1, house_abc_read 10 10)]"
    by (simp add: dict_contains_def)
  note nf = not_found[where now = 20 and ?uuid4.0 = uuid4_example and ua = city_boston
      and up = person_phone and ug = phone_only and uh = house_phone]
  from a p g h nf[THEN conjunct1, THEN mp, OF a]
    nf[THEN conjunct2, THEN conjunct1, THEN mp, OF p]
    nf[THEN conjunct2, THEN conjunct2, THEN conjunct1, THEN mp, OF g]
    nf[THEN conjunct2, THEN conjunct2, THEN conjunct2, THEN mp, OF h]
  show ?thesis by blast
qed

section \<open>Claim C8: listing without filters\<close>

text \<open>
  Claim C8: for every entity kind and every store, the listing with every filter absent
  returns the records of all entries of the store, in the order of the store; in
  particular every record that a lookup in the store finds is in the listing.
\<close>

theorem list_without_filters:
  "list_addresses None None None None None sa = map snd sa
   \<and> list_persons None None None None None None None None sp = map snd sp
   \<and> list_organizations None None None None None sg = map snd sg
   \<and> list_houses None None None None sh = map snd sh
   \<and> (map_of sa k = Some ra \<longrightarrow> ra \<in> set (list_addresses None None None None None sa))
   \<and> (map_of sp k = Some rp \<longrightarrow>
        rp \<in> set (list_persons None None None None None None None None sp))
   \<and> (map_of sg k = Some rg \<longrightarrow>
        rg \<in> set (list_organizations None None None None None sg))
   \<and> (map_of sh k = Some rh \<longrightarrow> rh \<in> set (list_houses None None None None sh))"
proof -
  have all: "list_addresses None None None None None sa = map snd sa"
    "list_persons None None None None None None None None sp = map snd sp"
    "list_organizations None None None None None sg = map snd sg"
    "list_houses None None None None sh = map snd sh"
    by (simp_all add: list_addresses_def list_persons_def list_organizations_def
        list_houses_def dict_values_def)
  have stored: "map_of d k = Some r \<Longrightarrow> r \<in> set (map snd d)" for d :: "(uuid \<times> 'r) list" and r
    by (auto dest!: map_of_SomeD intro: rev_image_eqI)
  show ?thesis
    using stored[of sa ra] stored[of sp rp] stored[of sg rg] stored[of sh rh]
    by (simp only: all) blast
qed

text \<open>Claim C8 on four stores of two records each.\<close>

theorem list_without_filters_witness:
  "list_addresses None None None None None
       [(1, AddressRead_of_create 10 10 address_main_st), (5, address_boston_stale_read)]
     = [AddressRead_of_create 10 10 address_main_st, address_boston_stale_read]
   \<and> list_persons None None None None None None None None
       [(3, person_ada_read None 10 10), (4, person_bob_read)]
     = [person_ada_read None 10 10, person_bob_read]
   \<and> list_organizations None None None None None
       [(2, organization_cs_read None 10 10), (6, organization_moved_read)]
     = [organization_cs_read None 10 10, organization_moved_read]
   \<and> list_houses None None None None [(1, house_abc_read 10 10), (7, house_moved_read)]
     = [house_abc_read 10 10, house_moved_read]
   \<and> address_boston_stale_read
       \<in> set (list_addresses None None None None None
           [(1, AddressRead_of_create 10 10 address_main_st), (5, address_boston_stale_read)])
   \<and> person_bob_read
       \<in> set (list_persons None None None None None None None None
           [(3, person_ada_read None 10 10), (4, person_bob_read)])
   \<and> organization_moved_read
       \<in> set (list_organizations None None None None None
           [(2, organization_cs_read None 10 10), (6, organization_moved_read)])
   \<and> house_moved_read
       \<in> set (list_houses None None None None [(1, house_abc_read 10 10), (7, house_moved_read)])"
proof -
  have a: "map_of [(1, AddressRead_of_create 10 10 address_main_st),
      (5 :: uuid, address_boston_stale_read)] 5 = Some address_boston_stale_read"
    and p: "map_of [(3, person_ada_read None 10 10), (4 :: uuid, person_bob_read)] 4
      = Some person_bob_read"
    and g: "map_of [(2, organization_cs_read None 10 10), (6 :: uuid, organization_moved_read)] 6
      = Some organization_moved_read"
    and h: "map_of [(1, house_abc_read 10 10), (7 :: uuid, house_moved_read)] 7
      = Some house_moved_read"
    by simp_all
  note all = list_without_filters
  note c2 = conjunct2
  have lists:
    "list_addresses None None None None None
       [(1, AddressRead_of_create 10 10 address_main_st), (5, address_boston_stale_read)]
     = [AddressRead_of_create 10 10 address_main_st, address_boston_stale_read]"
    "list_persons None None None None None None None None
       [(3, person_ada_read None 10 10), (4, person_bob_read)]
     = [person_ada_read None 10 10, person_bob_read]"
    "list_organizations None None None None None
       [(2, organization_cs_read None 10 10), (6, organization_moved_read)]
     = [organization_cs_read None 10 10, organization_moved_read]"
    "list_houses None None None None [(1, house_abc_read 10 10), (7, house_moved_read)]
     = [house_abc_read 10 10, house_moved_read]"
    using all[THEN conjunct1, of "[(1, AddressRead_of_create 10 10 address_main_st),
        (5, address_boston_stale_read)]"]
      all[THEN c2, THEN conjunct1, of "[(3, person_ada_read None 10 10), (4, person_bob_read)]"]
      all[THEN c2, THEN c2, THEN conjunct1,
        of "[(2, organization_cs_read None 10 10), (6, organization_moved_read)]"]
      all[THEN c2, THEN c2, THEN c2, THEN conjunct1,
        of "[(1, house_abc_read 10 10), (7, house_moved_read)]"]
    by simp_all
  from lists all[THEN c2, THEN c2, THEN c2, THEN c2, THEN conjunct1, THEN mp, OF a]
    all[THEN c2, THEN c2, THEN c2, THEN c2, THEN c2, THEN conjunct1, THEN mp, OF p]
    all[THEN c2, THEN c2, THEN c2, THEN c2, THEN c2, THEN c2, THEN conjunct1, THEN mp, OF g]
    all[THEN c2, THEN c2, THEN c2, THEN c2, THEN c2, THEN c2, THEN c2, THEN mp, OF h]
  show ?thesis by blast
qed

section \<open>Claim C9: \<open>updated_at\<close> is not before \<open>created_at\<close>\<close>

text \<open>
  Claim C9, as stated, says that every stored record has \<open>created_at \<le> updated_at\<close>.
  The endpoints store whatever \<^verbatim>\<open>datetime.utcnow()\<close> returns and compare nothing: when
  the clock is set back between the two readings of a create, or between a create and an
  update, the stored record has \<open>updated_at\<close> before \<open>created_at\<close>.
\<close>

theorem clock_set_back_breaks_order:
  "run [CreateHouse 11 10 house_abc] initial
     = \<lparr>persons = [], addresses = [], organizations = [],
        houses = [(1, house_abc_read 11 10)]\<rparr>
   \<and> \<not> HouseRead.created_at (house_abc_read 11 10)
         \<le> HouseRead.updated_at (house_abc_read 11 10)
   \<and> run [CreateAddress 10 10 address_main_st, UpdateAddress 5 1 city_boston] initial
     = \<lparr>persons = [], addresses = [(1, address_boston_stale_read)], organizations = [],
        houses = []\<rparr>
   \<and> \<not> AddressRead.created_at address_boston_stale_read
         \<le> AddressRead.updated_at address_boston_stale_read"
  by (simp add: initial_def create_house_def dict_contains_def HouseRead_of_create_def
      house_abc_def house_abc_read_def create_address_def AddressRead_of_create_def
      address_main_st_def AddressBase.defs update_address_def AddressRead_merge_def
      city_boston_def address_boston_stale_read_def Let_def)

text \<open>
  Claim C9, amended: provided the readings of the clock never decrease from one call to
  the next, in every state that the process reaches from the empty stores every stored
  record of every kind has \<open>created_at \<le> updated_at\<close>. A create establishes it (its
  two readings are taken in that order) and an update keeps it (\<open>created_at\<close> stays, and
  \<open>updated_at\<close> becomes a reading not earlier than any before).
\<close>

theorem updated_at_not_before_created_at:
  "sorted (concat (map readings rs)) \<Longrightarrow>
     (map_of (persons (run rs initial)) k = Some rp \<longrightarrow>
        PersonRead.created_at rp \<le> PersonRead.updated_at rp)
     \<and> (map_of (addresses (run rs initial)) k = Some ra \<longrightarrow>
        AddressRead.created_at ra \<le> AddressRead.updated_at ra)
     \<and> (map_of (organizations (run rs initial)) k = Some rg \<longrightarrow>
        OrganizationRead.created_at rg \<le> OrganizationRead.updated_at rg)
     \<and> (map_of (houses (run rs initial)) k = Some rh \<longrightarrow>
        HouseRead.created_at rh \<le> HouseRead.updated_at rh)"
proof -
  assume sorted: "sorted (concat (map readings rs))"
  have ordered: "c \<le> u" if "(c, u) \<in> set (stamps (run rs initial))" for c u
    using run_stamps[of rs initial c u] sorted that by (simp add: stamps_initial)
  show ?thesis
    using ordered stored_stamps[of "run rs initial" k]
    by (auto simp: person_stamp_def address_stamp_def organization_stamp_def house_stamp_def)
qed

text \<open>
  Claim C9, the amended statement on a run that creates a house, updates it and creates a
  person, the clock standing still between some of the calls.
\<close>

theorem updated_at_not_before_created_at_witness:
  "sorted (concat (map readings house_abc_requests))
   \<and> run house_abc_requests initial
       = \<lparr>persons = [(3, person_ada_read None 20 20)], addresses = [], organizations = [],
          houses = [(1, house_abc_phone_read)]\<rparr>
   \<and> PersonRead.created_at (person_ada_read None 20 20)
       \<le> PersonRead.updated_at (person_ada_read None 20 20)
   \<and> HouseRead.created_at house_abc_phone_read \<le> HouseRead.updated_at house_abc_phone_read"
proof -
  have s: "sorted (concat (map readings house_abc_requests))"
    by (simp add: house_abc_requests_def)
  have p: "map_of (persons (run house_abc_requests initial)) 3
      = Some (person_ada_read None 20 20)"
    and h: "map_of (houses (run house_abc_requests initial)) 1 = Some house_abc_phone_read"
    by (simp_all add: example_run)
  note inv = updated_at_not_before_created_at[OF s]
  from inv[THEN conjunct1, THEN mp, OF p]
    inv[THEN conjunct2, THEN conjunct2, THEN conjunct2, THEN mp, OF h] s example_run
  show ?thesis by blast
qed

section \<open>Claim C10: creating a person under an identifier that is present\<close>

text \<open>
  Claim C10: when the identifier of the payload is already a key of the store of persons,
  \<open>create_person\<close> succeeds and puts the new record in the place of the old one:
  the store then maps the identifier to the new record, has the same keys in the same
  order (so the same size), holds every other entry unchanged, and (its keys being
  distinct) no longer holds the old record unless the new one equals it.
\<close>

theorem create_person_replaces:
  assumes "map_of sp (PersonBase.id' p) = Some old"
  shows "fst (create_person t1 t2 p sp) = Inr (PersonRead_of_create t1 t2 p)
    \<and> map_of (snd (create_person t1 t2 p sp)) (PersonBase.id' p)
        = Some (PersonRead_of_create t1 t2 p)
    \<and> (\<exists>n < length sp. sp ! n = (PersonBase.id' p, old)
          \<and> snd (create_person t1 t2 p sp)
              = sp[n := (PersonBase.id' p, PersonRead_of_create t1 t2 p)])
    \<and> length (snd (create_person t1 t2 p sp)) = length sp
    \<and> map fst (snd (create_person t1 t2 p sp)) = map fst sp
    \<and> (\<forall>k. k \<noteq> PersonBase.id' p \<longrightarrow>
          map_of (snd (create_person t1 t2 p sp)) k = map_of sp k)
    \<and> (distinct (map fst sp) \<and> old \<noteq> PersonRead_of_create t1 t2 p \<longrightarrow>
          (PersonBase.id' p, old) \<notin> set (snd (create_person t1 t2 p sp)))"
proof -
  let ?new = "PersonRead_of_create t1 t2 p"
  have id_new: "PersonBase.id' ?new = PersonBase.id' p"
    by (simp add: PersonRead_of_create_def PersonBase.defs)
  have store: "snd (create_person t1 t2 p sp) = dict_set (PersonBase.id' p) ?new sp"
    by (simp add: create_person_def Let_def id_new)
  have res: "fst (create_person t1 t2 p sp) = Inr ?new"
    by (simp add: create_person_def Let_def)
  from dict_set_present[OF assms, of ?new]
  have pos: "\<exists>n < length sp. sp ! n = (PersonBase.id' p, old)
      \<and> dict_set (PersonBase.id' p) ?new sp = sp[n := (PersonBase.id' p, ?new)]" .
  show ?thesis
    using assms pos
    by (simp add: store res map_of_dict_set length_dict_set keys_dict_set dict_set_old_gone)
qed

text \<open>Claim C10 on a store of two persons, the first of which is replaced.\<close>

theorem create_person_replaces_witness:
  "map_of [(3, person_ada_read None 10 10), (4, person_bob_read)] (PersonBase.id' person_ada_renamed)
     = Some (person_ada_read None 10 10)
   \<and> snd (create_person 30 31 person_ada_renamed
            [(3, person_ada_read None 10 10), (4, person_bob_read)])
     = [(3, PersonRead_of_create 30 31 person_ada_renamed), (4, person_bob_read)]
   \<and> length (snd (create_person 30 31 person_ada_renamed
            [(3, person_ada_read None 10 10), (4, person_bob_read)])) = 2
   \<and> (3, person_ada_read None 10 10)
       \<notin> set (snd (create_person 30 31 person_ada_renamed
            [(3, person_ada_read None 10 10), (4, person_bob_read)]))"
proof -
  have present: "map_of [(3, person_ada_read None 10 10), (4, person_bob_read)]
      (PersonBase.id' person_ada_renamed) = Some (person_ada_read None 10 10)"
    by (simp add: person_ada_renamed_def)
  have differ: "distinct (map fst [(3 :: uuid, person_ada_read None 10 10), (4, person_bob_read)])
      \<and> person_ada_read None 10 10 \<noteq> PersonRead_of_create 30 31 person_ada_renamed"
    by (simp add: person_ada_read_def PersonRead_of_create_def person_ada_renamed_def
        PersonBase.defs)
  have store: "snd (create_person 30 31 person_ada_renamed
        [(3, person_ada_read None 10 10), (4, person_bob_read)])
      = [(3, PersonRead_of_create 30 31 person_ada_renamed), (4, person_bob_read)]"
    by (simp add: create_person_def Let_def)
      (simp add: PersonRead_of_create_def person_ada_renamed_def PersonBase.defs)
  from create_person_replaces[OF present, of 30 31] differ
  have "length (snd (create_person 30 31 person_ada_renamed
            [(3, person_ada_read None 10 10), (4, person_bob_read)])) = 2
      \<and> (3, person_ada_read None 10 10)
          \<notin> set (snd (create_person 30 31 person_ada_renamed
            [(3, person_ada_read None 10 10), (4, person_bob_read)]))"
    by (simp add: person_ada_renamed_def)
  with present store show ?thesis by blast
qed

end
